theory Spec2Isabelle
  imports Complex_Main
begin

section \<open>Data model of the order screen\<close>

text \<open>
  The order screen keeps its state in React state cells and changes it in event handlers.
  The model below follows the last iteration of the screen (the one with tax settings,
  \<open>suppressRemovedAfterFetch\<close> and \<open>hasPendingChanges\<close>). Each handler is a function from
  the state it reads to the state it leaves. Values that the handler takes from the
  environment (a time stamp, a random suffix, a server response) are parameters.

  Quantities are counts and are modelled as \<open>int\<close>. Prices and amounts are JavaScript
  numbers; they are modelled as rationals that are rounded to 53 significant bits after
  every arithmetic operation (section "Numbers").

  A field that may be \<open>undefined\<close> is an \<open>option\<close>. The effect that recomputes
  \<open>hasPendingChanges\<close> runs only after \<open>orderItems\<close>, \<open>originalSubmittedItems\<close> or
  \<open>existingBillId\<close> has changed; the handlers below are modelled without it.
\<close>

datatype ItemStatus = Original | Addon | Removed

type_synonym number = rat

record Product =
  product_id :: string
  product_name :: string
  category :: "string \<times> string"
  product_status :: string
  Basequantity :: "string option"
  price :: "number option"

record OrderItem =
  product :: Product
  quantity :: int
  itemStatus :: "ItemStatus option"
  originalQuantity :: "int option"
  localId :: "string option"
  serverItemIds :: "string list option"

record TaxSettings =
  cgst :: number
  sgst :: number

record Screen =
  apiUrl :: "string option"
  tableNumber :: "int option"
  isLoadingIp :: bool
  orderItems :: "OrderItem list"
  originalSubmittedItems :: "OrderItem list"
  existingBillId :: "string option"
  billNumber :: "string option"
  sequenceNumber :: int
  hasPendingChanges :: bool
  suppressRemovedAfterFetch :: bool
  loading :: bool
  loadingLastOrder :: bool
  taxSettings :: TaxSettings

text \<open>JavaScript truthiness of a string that may be \<open>null\<close>: \<open>null\<close> and \<open>""\<close> are falsy.\<close>

definition truthy :: "string option \<Rightarrow> bool" where
  "truthy v = (case v of None \<Rightarrow> False | Some t \<Rightarrow> t \<noteq> [])"

text \<open>\<open>v || null\<close> on such a string.\<close>

definition or_null :: "string option \<Rightarrow> string option" where
  "or_null v = (if truthy v then v else None)"

text \<open>\<open>Array.prototype.findIndex\<close>, with \<open>None\<close> for \<open>-1\<close>.\<close>

fun findIndex :: "('a \<Rightarrow> bool) \<Rightarrow> 'a list \<Rightarrow> nat option" where
  "findIndex P [] = None"
| "findIndex P (x # xs) =
     (if P x then Some 0 else (case findIndex P xs of None \<Rightarrow> None | Some i \<Rightarrow> Some (Suc i)))"

abbreviation pid :: "OrderItem \<Rightarrow> string" where
  "pid i \<equiv> product_id (product i)"

section \<open>Adding a product: \<open>handleAddToOrder\<close>\<close>

text \<open>
  The lookup at the head of \<open>handleAddToOrder\<close>: the first line of the product whose
  status is not \<open>removed\<close>.
\<close>

definition existingItem :: "Product \<Rightarrow> OrderItem list \<Rightarrow> OrderItem option" where
  "existingItem p items =
     List.find (\<lambda>item. pid item = product_id p \<and> itemStatus item \<noteq> Some Removed) items"

definition addonItem :: "Product \<Rightarrow> OrderItem list \<Rightarrow> OrderItem option" where
  "addonItem p items =
     List.find (\<lambda>item. pid item = product_id p \<and> itemStatus item = Some Addon) items"

text \<open>
  The line created when the product has an original line on a submitted bill and no
  addon line yet. The source gives it no \<open>localId\<close>.
\<close>

definition newAddonEntry :: "Product \<Rightarrow> OrderItem" where
  "newAddonEntry p =
     \<lparr>product = p, quantity = 1, itemStatus = Some Addon, originalQuantity = None,
      localId = None, serverItemIds = None\<rparr>"

text \<open>
  The line created for a product with no line that is not removed. \<open>stamp\<close> stands for
  the text \<open>Date.now()\<close>, a dash and the random suffix.
\<close>

definition newItem :: "string \<Rightarrow> Product \<Rightarrow> string option \<Rightarrow> OrderItem" where
  "newItem stamp p billId =
     \<lparr>product = p, quantity = 1,
      itemStatus = (if truthy billId then Some Addon else None),
      originalQuantity = None,
      localId = Some (''local-'' @ stamp), serverItemIds = None\<rparr>"

definition handleAddToOrder :: "string \<Rightarrow> Product \<Rightarrow> Screen \<Rightarrow> Screen" where
  "handleAddToOrder stamp p s =
     (let items = orderItems s in
      case existingItem p items of
        Some e \<Rightarrow>
          if itemStatus e = Some Removed then
            s\<lparr>orderItems :=
                map (\<lambda>item. if pid item = product_id p
                      then item\<lparr>quantity := 1, itemStatus := Some Addon, originalQuantity := None\<rparr>
                      else item) items\<rparr>
          else if truthy (existingBillId s) \<and> itemStatus e = Some Original then
            (case addonItem p items of
               Some a \<Rightarrow>
                 s\<lparr>orderItems :=
                     map (\<lambda>item. if pid item = product_id p \<and> itemStatus item = Some Addon
                           then item\<lparr>quantity := quantity item + 1\<rparr> else item) items\<rparr>
             | None \<Rightarrow> s\<lparr>orderItems := items @ [newAddonEntry p]\<rparr>)
          else
            s\<lparr>orderItems :=
                map (\<lambda>item. if pid item = product_id p
                      then item\<lparr>quantity := quantity item + 1\<rparr> else item) items\<rparr>
      | None \<Rightarrow> s\<lparr>orderItems := items @ [newItem stamp p (existingBillId s)]\<rparr>)"

text \<open>The number of units of a product in the draft, removed lines left out as in \<open>getTotalItems\<close>.\<close>

definition totalFor :: "string \<Rightarrow> OrderItem list \<Rightarrow> int" where
  "totalFor k items =
     sum_list (map quantity (filter (\<lambda>item. pid item = k \<and> itemStatus item \<noteq> Some Removed) items))"

section \<open>Changing a quantity: \<open>handleDecrementQuantity\<close> and the restore button\<close>

text \<open>
  \<open>now\<close> stands for the text of \<open>Date.now()\<close>. The index found by \<open>findIndex\<close> is in
  range, so \<open>items ! idx\<close> is the element the source reads.
\<close>

definition handleDecrementQuantity :: "string \<Rightarrow> string \<Rightarrow> Screen \<Rightarrow> Screen" where
  "handleDecrementQuantity now lid s =
     (let items = orderItems s in
      case findIndex (\<lambda>i. localId i = Some lid) items of
        None \<Rightarrow> s
      | Some idx \<Rightarrow>
          let target = items ! idx;
              newQuantity = max 0 (quantity target - 1);
              isOriginal = (itemStatus target = None \<or> itemStatus target = Some Original)
          in
          if isOriginal \<and> truthy (existingBillId s) then
            let prevQty = quantity target;
                removedDelta = prevQty - newQuantity;
                newItems = items[idx := target\<lparr>quantity := newQuantity\<rparr>];
                removedIdx = findIndex (\<lambda>i. pid i = pid target \<and> itemStatus i = Some Removed) newItems;
                origSubmitted = List.find (\<lambda>sub. pid sub = pid target) (originalSubmittedItems s);
                originalTotal =
                  (case origSubmitted of
                     Some sub \<Rightarrow> quantity sub
                   | None \<Rightarrow> prevQty + (case removedIdx of Some r \<Rightarrow> quantity (newItems ! r) | None \<Rightarrow> 0))
            in
            (case removedIdx of
               Some r \<Rightarrow>
                 s\<lparr>orderItems :=
                     newItems[r := (newItems ! r)\<lparr>quantity := quantity (newItems ! r) + removedDelta,
                                                originalQuantity := Some originalTotal\<rparr>],
                   hasPendingChanges := True\<rparr>
             | None \<Rightarrow>
                 s\<lparr>orderItems :=
                     newItems @
                     [\<lparr>product = product target, quantity = removedDelta, itemStatus = Some Removed,
                       originalQuantity = Some originalTotal,
                       localId = Some (''removed-'' @ pid target @ ''-'' @ now),
                       serverItemIds = None\<rparr>],
                   hasPendingChanges := True\<rparr>)
          else if newQuantity \<le> 0 then
            s\<lparr>orderItems := take idx items @ drop (Suc idx) items\<rparr>
          else
            s\<lparr>orderItems := items[idx := target\<lparr>quantity := newQuantity\<rparr>]\<rparr>)"

text \<open>
  The restore button of a line in the "Removed Items" section. \<open>item\<close> is the rendered
  line. \<open>item.originalQuantity || 1\<close> is 1 when the field is missing or 0.
\<close>

definition restoreRemoved :: "OrderItem \<Rightarrow> Screen \<Rightarrow> Screen" where
  "restoreRemoved item s =
     s\<lparr>orderItems :=
         map (\<lambda>i. if localId i = localId item
               then i\<lparr>quantity := (case originalQuantity item of
                                      None \<Rightarrow> 1 | Some q \<Rightarrow> if q = 0 then 1 else q),
                      itemStatus := Some Original, originalQuantity := None\<rparr>
               else i) (orderItems s)\<rparr>"

section \<open>Numbers\<close>

text \<open>
  A JavaScript number is a binary64 value. The model keeps the value as a rational and
  rounds the exact result of each operation to 53 significant bits, ties to even. The
  exponent range is not bounded: amounts of money stay far from the largest and the
  smallest binary64 values. \<open>NaN\<close> and the infinities are not values of the model.
\<close>

text \<open>The number of binary digits of a positive integer.\<close>

function bitlen :: "int \<Rightarrow> int" where
  "bitlen n = (if n \<le> 0 then 0 else 1 + bitlen (n div 2))"
  by pat_completeness auto
termination
  by (relation "measure nat") auto

definition pow2 :: "int \<Rightarrow> rat" where
  "pow2 e = (if 0 \<le> e then 2 ^ nat e else 1 / 2 ^ nat (- e))"

text \<open>For \<open>0 < a\<close>, the exponent \<open>e\<close> with \<open>2^e \<le> a < 2^(e+1)\<close>.\<close>

definition ilog2 :: "rat \<Rightarrow> int" where
  "ilog2 a =
     (if 1 \<le> a then bitlen \<lfloor>a\<rfloor> - 1
      else (let k = bitlen \<lfloor>1 / a\<rfloor>
            in if a * pow2 (k - 1) = 1 then 1 - k else - k))"

definition roundTiesToEven :: "rat \<Rightarrow> int" where
  "roundTiesToEven m =
     (let f = \<lfloor>m\<rfloor>; d = m - of_int f
      in if d < 1 / 2 then f else if 1 / 2 < d then f + 1 else if even f then f else f + 1)"

definition fl :: "rat \<Rightarrow> number" where
  "fl x =
     (if x = 0 then 0
      else (let e = ilog2 \<bar>x\<bar> - 52 in of_int (roundTiesToEven (x / pow2 e)) * pow2 e))"


definition addD :: "number \<Rightarrow> number \<Rightarrow> number" where
  "addD x y = fl (x + y)"

definition mulD :: "number \<Rightarrow> number \<Rightarrow> number" where
  "mulD x y = fl (x * y)"



section \<open>Totals and taxes\<close>

text \<open>
  \<open>(item.product as any)?.price ? Number(price) : 0\<close>: a missing price and the price 0
  both give 0.
\<close>

definition unitPrice :: "OrderItem \<Rightarrow> number" where
  "unitPrice item = (case price (product item) of None \<Rightarrow> 0 | Some p \<Rightarrow> if p = 0 then 0 else p)"


definition getTotalItems :: "OrderItem list \<Rightarrow> int" where
  "getTotalItems items =
     foldl (\<lambda>total item. total + quantity item) 0
       (filter (\<lambda>item. itemStatus item \<noteq> Some Removed) items)"

definition getTotalOrderCost :: "OrderItem list \<Rightarrow> number" where
  "getTotalOrderCost items =
     foldl (\<lambda>total item. addD total (mulD (unitPrice item) (of_int (quantity item)))) 0
       (filter (\<lambda>item. itemStatus item \<noteq> Some Removed) items)"



section \<open>The server's bill\<close>

text \<open>
  The bill arrives as JSON. A row's \<open>productId\<close> is either the populated product
  document or the bare id. A populated document carries its \<open>_id\<close>, a non-empty
  string; for a document without one the source would key the group by the document
  itself, a case the model leaves out.
\<close>

record ProductDoc =
  doc_id :: string
  doc_name :: "string option"
  doc_category :: "(string \<times> string) option"
  doc_status :: "string option"
  doc_price :: "number option"

datatype ProductRef = Populated ProductDoc | Bare string

record BillItem =
  item_id :: "string option"
  productId :: "ProductRef option"
  item_name :: "string option"
  item_quantity :: "int option"
  item_price :: "number option"
  item_status :: "string option"

record Bill =
  bill_id :: "string option"
  bill_billNumber :: "string option"
  bill_status :: "string option"
  bill_items :: "BillItem list option"

record TableStatus =
  resp_status :: "string option"
  resp_data :: "Bill option"

text \<open>
  The outcome of an axios call: the promise is rejected (no response, or a status outside
  2xx; the error carries the response status, the server's message and its own message),
  or it resolves with a status and a body.
\<close>

datatype 'a Response =
  Rejected "nat option" "string option" string
| Resolved nat 'a

type_synonym alert = "string \<times> string"

text \<open>\<open>bi.productId?._id || bi.productId\<close>; a row without a product is skipped.\<close>

definition pid_of :: "BillItem \<Rightarrow> string option" where
  "pid_of bi =
     (case productId bi of
        None \<Rightarrow> None
      | Some (Populated d) \<Rightarrow> Some (doc_id d)
      | Some (Bare k) \<Rightarrow> if k = [] then None else Some k)"

text \<open>\<open>it.quantity || 0\<close>\<close>

definition qty0 :: "BillItem \<Rightarrow> int" where
  "qty0 bi = (case item_quantity bi of None \<Rightarrow> 0 | Some q \<Rightarrow> q)"

text \<open>
  The \<open>Map\<close> from product id to the rows of that product. A JavaScript \<open>Map\<close> iterates
  in the order in which its keys were first set, so the model is an association list in
  that order.
\<close>

fun group_push :: "string \<Rightarrow> BillItem \<Rightarrow> (string \<times> BillItem list) list \<Rightarrow> (string \<times> BillItem list) list" where
  "group_push k bi [] = [(k, [bi])]"
| "group_push k bi ((k', rows) # rest) =
     (if k = k' then (k', rows @ [bi]) # rest else (k', rows) # group_push k bi rest)"

definition itemsByProduct :: "BillItem list \<Rightarrow> (string \<times> BillItem list) list" where
  "itemsByProduct rows =
     foldl (\<lambda>m bi. case pid_of bi of None \<Rightarrow> m | Some k \<Rightarrow> group_push k bi m) [] rows"

section \<open>Sync: \<open>fetchLastOrder\<close>\<close>

definition isActiveRow :: "BillItem \<Rightarrow> bool" where
  "isActiveRow g = (item_status g \<noteq> Some ''canceled'' \<and> 0 < qty0 g)"

definition isCanceledRow :: "BillItem \<Rightarrow> bool" where
  "isCanceledRow g = (item_status g = Some ''canceled'')"

text \<open>The product built from the first row of a group.\<close>

definition protoProduct :: "string \<Rightarrow> BillItem \<Rightarrow> Product" where
  "protoProduct k proto =
     (let doc = (case productId proto of Some (Populated d) \<Rightarrow> Some d | _ \<Rightarrow> None)
      in \<lparr>product_id = k,
          product_name =
            (case Option.bind doc doc_name of
               Some n \<Rightarrow> if n = [] then (case item_name proto of Some m \<Rightarrow> m | None \<Rightarrow> [])
                         else n
             | None \<Rightarrow> (case item_name proto of Some m \<Rightarrow> m | None \<Rightarrow> [])),
          category = (case Option.bind doc doc_category of Some c \<Rightarrow> c | None \<Rightarrow> ([], [])),
          product_status =
            (case Option.bind doc doc_status of
               Some t \<Rightarrow> if t = [] then ''active'' else t
             | None \<Rightarrow> ''active''),
          Basequantity = None,
          price =
            Some (case item_price proto of
                    Some v \<Rightarrow> if v = 0
                              then (case Option.bind doc doc_price of Some w \<Rightarrow> w | None \<Rightarrow> 0)
                              else v
                  | None \<Rightarrow> (case Option.bind doc doc_price of Some w \<Rightarrow> w | None \<Rightarrow> 0))\<rparr>)"

text \<open>\<open>rows.map(a => a._id).filter(Boolean)\<close>\<close>

definition rowIds :: "BillItem list \<Rightarrow> string list" where
  "rowIds rows = map the (filter truthy (map item_id rows))"

text \<open>The lines pushed for one entry of the map: the body of \<open>itemsByProduct.forEach\<close>.\<close>

definition mapGroup :: "string \<times> BillItem list \<Rightarrow> OrderItem list" where
  "mapGroup entry =
     (let k = fst entry; rows = snd entry;
          active = filter isActiveRow rows;
          canceled = filter isCanceledRow rows
      in (case active of
            [] \<Rightarrow> []
          | proto # _ \<Rightarrow>
              (let totalQty = foldl (\<lambda>t it. t + qty0 it) 0 active
               in [\<lparr>product = protoProduct k proto, quantity = totalQty,
                     itemStatus = Some Original, originalQuantity = Some totalQty,
                     localId = Some (''srv-'' @ k), serverItemIds = Some (rowIds active)\<rparr>]))
         @
         (case canceled of
            [] \<Rightarrow> []
          | proto # _ \<Rightarrow>
              (let canceledTotal = foldl (\<lambda>t it. t + qty0 it) 0 canceled
               in [\<lparr>product = protoProduct k proto, quantity = 0,
                     itemStatus = Some Removed, originalQuantity = Some canceledTotal,
                     localId = Some (''srv-removed-'' @ k),
                     serverItemIds = Some (rowIds canceled)\<rparr>])))"

definition mappedItems :: "Bill \<Rightarrow> OrderItem list" where
  "mappedItems bill =
     concat (map mapGroup (itemsByProduct (case bill_items bill of None \<Rightarrow> [] | Some rows \<Rightarrow> rows)))"

text \<open>
  \<open>fetchLastOrder\<close> on the outcome of \<open>getTableStatus\<close>. The callback is memoised
  without \<open>suppressRemovedAfterFetch\<close> among its dependencies, so it reads the value of
  that flag from the render in which it was created: the parameter \<open>suppress\<close>. Every
  synced line already has a \<open>localId\<close>, so the \<open>??\<close> fallback of the source never
  applies. The \<open>catch\<close> branch also drops the stored token on a 401; the token is not
  part of the screen state.
\<close>

definition fetchLastOrder :: "bool \<Rightarrow> TableStatus Response \<Rightarrow> Screen \<Rightarrow> Screen" where
  "fetchLastOrder suppress response s =
     (if \<not> truthy (apiUrl s) \<or> tableNumber s = None \<or> tableNumber s = Some 0 \<or> isLoadingIp s then s
      else
        (case response of
           Rejected code srv msg \<Rightarrow>
             s\<lparr>existingBillId := None, orderItems := [], originalSubmittedItems := [],
               loadingLastOrder := False\<rparr>
         | Resolved code body \<Rightarrow>
             (case (if resp_status body = Some ''success'' then resp_data body else None) of
                Some bill \<Rightarrow>
                  (let finalMapped =
                         (if suppress
                          then filter (\<lambda>i. itemStatus i \<noteq> Some Removed) (mappedItems bill)
                          else mappedItems bill)
                   in s\<lparr>existingBillId := or_null (bill_id bill),
                        billNumber := or_null (bill_billNumber bill),
                        orderItems := finalMapped,
                        originalSubmittedItems :=
                          filter (\<lambda>i. itemStatus i = Some Original) finalMapped,
                        suppressRemovedAfterFetch :=
                          (if suppress then False else suppressRemovedAfterFetch s),
                        loadingLastOrder := False\<rparr>)
              | None \<Rightarrow> s\<lparr>existingBillId := None, loadingLastOrder := False\<rparr>)))"

section \<open>Update KOT: the diff and the request\<close>

record AddedItem =
  add_productId :: string
  add_name :: string
  add_quantity :: int
  add_price :: number

datatype ChangeType = Edit | Canceled

record EditedItem =
  itemId :: "string option"
  newQuantity :: int
  changeType :: ChangeType

definition addedItems :: "OrderItem list \<Rightarrow> AddedItem list" where
  "addedItems items =
     map (\<lambda>item. \<lparr>add_productId = pid item, add_name = product_name (product item),
                   add_quantity = quantity item, add_price = unitPrice item\<rparr>)
       (filter (\<lambda>item. itemStatus item = Some Addon \<and> 0 < quantity item) items)"

text \<open>
  \<open>desiredByProduct\<close> is only read with \<open>has\<close> and \<open>get\<close>, so the model is a map. The
  first argument is \<open>orderItems\<close>, the second \<open>originalSubmittedItems\<close>.
\<close>

definition desiredByProduct :: "OrderItem list \<Rightarrow> OrderItem list \<Rightarrow> (string \<rightharpoonup> int)" where
  "desiredByProduct items submitted =
     foldl (\<lambda>m oi.
        if itemStatus oi = Some Original \<or> itemStatus oi = None then m(pid oi \<mapsto> quantity oi)
        else if itemStatus oi = Some Removed then
          (case List.find (\<lambda>i. pid i = pid oi \<and> (itemStatus i = Some Original \<or> itemStatus i = None)) items of
             Some orig \<Rightarrow> m(pid oi \<mapsto> quantity orig)
           | None \<Rightarrow>
               (let remaining =
                      max 0 ((case List.find (\<lambda>sub. pid sub = pid oi) submitted of
                                Some sub \<Rightarrow> quantity sub | None \<Rightarrow> 0) - quantity oi)
                in m(pid oi \<mapsto> remaining)))
        else m) Map.empty items"

text \<open>
  The \<open>for\<close> loop over the active rows of one product: \<open>remaining\<close> and the
  \<open>editedItems\<close> array are the loop's state.
\<close>

fun distribute :: "int \<Rightarrow> BillItem list \<Rightarrow> EditedItem list \<Rightarrow> EditedItem list" where
  "distribute remaining [] edited = edited"
| "distribute remaining (sItem # rest) edited =
     (let origQty = qty0 sItem;
          assign = min origQty remaining;
          edited' =
            (if assign \<noteq> origQty
             then edited @ [\<lparr>itemId = item_id sItem, newQuantity = assign,
                             changeType = (if assign = 0 then Canceled else Edit)\<rparr>]
             else edited)
      in distribute (max 0 (remaining - assign)) rest edited')"

definition activeServerItems :: "BillItem list \<Rightarrow> BillItem list" where
  "activeServerItems serverItems = filter (\<lambda>r. item_status r \<noteq> Some ''canceled'') serverItems"

text \<open>The \<open>serverItemsByProduct.forEach\<close> loop.\<close>

definition editedItems :: "(string \<rightharpoonup> int) \<Rightarrow> (string \<times> BillItem list) list \<Rightarrow> EditedItem list" where
  "editedItems desiredMap groups =
     foldl (\<lambda>edited entry.
        case desiredMap (fst entry) of
          None \<Rightarrow> edited
        | Some desired \<Rightarrow> distribute desired (activeServerItems (snd entry)) edited) [] groups"

text \<open>
  Of the request body the model keeps the bill id, the status and the two lists from
  which the item array is built.
\<close>

record UpdateData =
  upd_id :: "string option"
  upd_status :: "string option"
  upd_edited :: "EditedItem list"
  upd_added :: "AddedItem list"

definition updateData :: "Screen \<Rightarrow> Bill \<Rightarrow> BillItem list \<Rightarrow> UpdateData" where
  "updateData s currentBill rows =
     (let added = addedItems (orderItems s);
          edited = editedItems (desiredByProduct (orderItems s) (originalSubmittedItems s))
                     (itemsByProduct rows);
          isCompleteOrder = (added = [] \<and> edited = [])
      in \<lparr>upd_id = existingBillId s,
          upd_status = (if isCompleteOrder then Some ''bill-printed'' else bill_status currentBill),
          upd_edited = edited, upd_added = added\<rparr>)"

text \<open>\<open>err.response?.data?.message || err.message || 'Unknown error'\<close>\<close>

definition errorMessage :: "string option \<Rightarrow> string \<Rightarrow> string" where
  "errorMessage srv msg =
     (if truthy srv then the srv else if msg \<noteq> [] then msg else ''Unknown error'')"

record Outcome =
  screen :: Screen
  alerts :: "alert list"
  request :: "UpdateData option"

text \<open>
  \<open>updateKOT\<close>. Its three server calls are \<open>getTableStatus\<close>, the \<open>PUT\<close> of the update
  and the \<open>getTableStatus\<close> of the closing \<open>fetchLastOrder\<close>; their outcomes are
  parameters and are read only when the call is reached. A bill without an item array
  makes \<open>currentBill.items.forEach\<close> throw a \<open>TypeError\<close>, whose text depends on the
  engine and is the parameter \<open>typeErrorText\<close>. The closing \<open>fetchLastOrder\<close> writes
  after the handler's own updates.
\<close>

definition updateKOT ::
  "bool \<Rightarrow> string \<Rightarrow> TableStatus Response \<Rightarrow> unit Response \<Rightarrow> TableStatus Response \<Rightarrow> Screen \<Rightarrow> Outcome" where
  "updateKOT suppress typeErrorText billResponse putResponse refetch s =
     (if isLoadingIp s then \<lparr>screen = s, alerts = [], request = None\<rparr>
      else if \<not> truthy (apiUrl s) then
        \<lparr>screen = s, alerts = [(''Error'', ''Server IP not configured. Please login first.'')],
         request = None\<rparr>
      else if tableNumber s = None \<or> tableNumber s = Some 0 then
        \<lparr>screen = s,
         alerts = [(''Select Table'', ''Please select a table before updating KOT.'')],
         request = None\<rparr>
      else if \<not> truthy (existingBillId s) then
        \<lparr>screen = s,
         alerts = [(''Error'', ''No existing order found. Please submit a new order first.'')],
         request = None\<rparr>
      else
        (let failed = (\<lambda>srv msg req.
               \<lparr>screen = s\<lparr>loading := False\<rparr>,
                alerts = [(''Failed to update KOT'', errorMessage srv msg)], request = req\<rparr>)
         in case billResponse of
           Rejected code srv msg \<Rightarrow> failed srv msg None
         | Resolved code body \<Rightarrow>
             (case (if resp_status body = Some ''success'' then resp_data body else None) of
                None \<Rightarrow> failed None ''Could not fetch current bill'' None
              | Some currentBill \<Rightarrow>
                  (case bill_items currentBill of
                     None \<Rightarrow> failed None typeErrorText None
                   | Some rows \<Rightarrow>
                       (let req = updateData s currentBill rows in
                        case putResponse of
                          Rejected code' srv msg \<Rightarrow> failed srv msg (Some req)
                        | Resolved status b \<Rightarrow>
                            if status = 200 \<or> status = 201 then
                              (let updatedItems =
                                     filter (\<lambda>item. itemStatus item \<noteq> Some Removed)
                                       (map (\<lambda>item. if itemStatus item = Some Addon
                                                     then item\<lparr>itemStatus := Some Original\<rparr>
                                                     else item) (orderItems s));
                                   s1 = s\<lparr>orderItems := updatedItems,
                                          originalSubmittedItems :=
                                            filter (\<lambda>item. itemStatus item = Some Original
                                                      \<or> itemStatus item = None) updatedItems,
                                          hasPendingChanges := False,
                                          suppressRemovedAfterFetch := True\<rparr>
                               in \<lparr>screen = (fetchLastOrder suppress refetch s1)\<lparr>loading := False\<rparr>,
                                   alerts = [(''Success'', ''KOT updated successfully!'')],
                                   request = Some req\<rparr>)
                            else \<lparr>screen = s\<lparr>loading := False\<rparr>, alerts = [],
                                  request = Some req\<rparr>)))))"

section \<open>The wording of the specification\<close>

text \<open>
  The specification describes the distribution of a desired quantity over the rows of a
  product in its own words: each row, in order, is assigned the minimum of its quantity
  and what remains, and what remains is decreased by the assignment.
\<close>

fun assignments :: "int \<Rightarrow> BillItem list \<Rightarrow> (BillItem \<times> int) list" where
  "assignments remaining [] = []"
| "assignments remaining (r # rs) =
     (let a = min (qty0 r) remaining in (r, a) # assignments (remaining - a) rs)"

text \<open>The edits the specification asks for: the rows whose assignment differs from their quantity.\<close>

definition plannedEdits :: "int \<Rightarrow> BillItem list \<Rightarrow> (string option \<times> int) list" where
  "plannedEdits desired rows =
     map (\<lambda>(r, a). (item_id r, a)) (filter (\<lambda>(r, a). a \<noteq> qty0 r) (assignments desired rows))"

section \<open>Example data\<close>

text \<open>
  A product, draft lines for it, a screen with an open bill for table 4 and a server row.
  The concrete statements below are about these.
\<close>

definition demoProduct :: Product where
  "demoProduct =
     \<lparr>product_id = ''P'', product_name = ''Tea'', category = (''c1'', ''Drinks''),
      product_status = ''active'', Basequantity = None, price = Some 50\<rparr>"

definition demoOriginal :: "int \<Rightarrow> OrderItem" where
  "demoOriginal q =
     \<lparr>product = demoProduct, quantity = q, itemStatus = Some Original,
      originalQuantity = Some q, localId = Some ''srv-P'', serverItemIds = Some [''i1'']\<rparr>"

definition demoRemoved :: "int \<Rightarrow> int \<Rightarrow> OrderItem" where
  "demoRemoved q oq =
     \<lparr>product = demoProduct, quantity = q, itemStatus = Some Removed,
      originalQuantity = Some oq, localId = Some ''srv-removed-P'', serverItemIds = Some [''i2'']\<rparr>"

definition demoScreen :: "OrderItem list \<Rightarrow> Screen" where
  "demoScreen items =
     \<lparr>apiUrl = Some ''http://10.0.0.2:3000'', tableNumber = Some 4, isLoadingIp = False,
      orderItems = items,
      originalSubmittedItems = filter (\<lambda>i. itemStatus i = Some Original) items,
      existingBillId = Some ''b1'', billNumber = Some ''B-7'', sequenceNumber = 7,
      hasPendingChanges = False, suppressRemovedAfterFetch = False, loading = False,
      loadingLastOrder = False, taxSettings = \<lparr>cgst = 5 / 2, sgst = 5 / 2\<rparr>\<rparr>"

definition demoRow :: "string \<Rightarrow> int \<Rightarrow> string \<Rightarrow> BillItem" where
  "demoRow i q st =
     \<lparr>item_id = Some i, productId = Some (Bare ''P''), item_name = Some ''Tea'',
      item_quantity = Some q, item_price = Some 50, item_status = Some st\<rparr>"

definition demoBill :: "string \<Rightarrow> BillItem list \<Rightarrow> Bill" where
  "demoBill st rows =
     \<lparr>bill_id = Some ''b1'', bill_billNumber = Some ''B-7'', bill_status = Some st,
      bill_items = Some rows\<rparr>"

section \<open>Facts about lists\<close>

lemma find_None_iff_all: "List.find P xs = None \<longleftrightarrow> (\<forall>x \<in> set xs. \<not> P x)"
  by (induction xs) auto

lemma find_Some_holds: "List.find P xs = Some x \<Longrightarrow> P x \<and> x \<in> set xs"
  by (induction xs) (auto split: if_splits)

lemma find_append_Some: "List.find P xs = Some x \<Longrightarrow> List.find P (xs @ ys) = Some x"
  by (induction xs) (auto split: if_splits)

lemma find_append_None: "List.find P xs = None \<Longrightarrow> List.find P (xs @ ys) = List.find P ys"
  by (induction xs) (auto split: if_splits)

lemma map_id_if: "(\<forall>x \<in> set xs. \<not> P x) \<Longrightarrow> map (\<lambda>x. if P x then f x else x) xs = xs"
  by (induction xs) auto

lemma foldl_add_sum: "foldl (\<lambda>t it. t + f it) a xs = (a::int) + sum_list (map f xs)"
  by (induction xs arbitrary: a) auto

lemma findIndex_Some:
  "findIndex P xs = Some i \<Longrightarrow> i < length xs \<and> P (xs ! i) \<and> (\<forall>j < i. \<not> P (xs ! j))"
proof (induction xs arbitrary: i)
  case Nil
  then show ?case by simp
next
  case (Cons x xs)
  show ?case
  proof (cases "P x")
    case True
    with Cons.prems show ?thesis by simp
  next
    case False
    with Cons.prems obtain i' where i': "findIndex P xs = Some i'" "i = Suc i'"
      by (auto split: option.splits)
    from Cons.IH [OF i'(1)] False i'(2) show ?thesis
      by (auto simp: nth_Cons split: nat.splits)
  qed
qed

lemma findIndex_None: "findIndex P xs = None \<longleftrightarrow> (\<forall>x \<in> set xs. \<not> P x)"
  by (induction xs) (auto split: option.splits)

lemma find_findIndex:
  "List.find P xs = (case findIndex P xs of None \<Rightarrow> None | Some i \<Rightarrow> Some (xs ! i))"
  by (induction xs) (auto split: option.splits)

lemma findIndex_cong_map: "map P ys = map P xs \<Longrightarrow> findIndex P ys = findIndex P xs"
proof (induction xs arbitrary: ys)
  case Nil
  then show ?case by simp
next
  case (Cons x xs)
  from Cons.prems obtain y ys' where ys: "ys = y # ys'" by (cases ys) auto
  with Cons.prems have "P y = P x" "map P ys' = map P xs" by simp_all
  with Cons.IH [of ys'] ys show ?case by simp
qed

lemma find_update_at_first:
  "findIndex P xs = Some r \<Longrightarrow> P y \<Longrightarrow> List.find P (xs[r := y]) = Some y"
proof (induction xs arbitrary: r)
  case Nil
  then show ?case by simp
next
  case (Cons x xs)
  show ?case
  proof (cases "P x")
    case True
    with Cons.prems show ?thesis by simp
  next
    case False
    with Cons.prems obtain r' where r': "findIndex P xs = Some r'" "r = Suc r'"
      by (auto split: option.splits)
    from Cons.IH [OF r'(1) Cons.prems(2)] False r'(2) show ?thesis by simp
  qed
qed

lemma sum_filter_update:
  fixes f :: "'a \<Rightarrow> int"
  assumes "i < length xs" "Q (xs ! i)" "Q y"
  shows "sum_list (map f (filter Q (xs[i := y]))) = sum_list (map f (filter Q xs)) - f (xs ! i) + f y"
  using assms
proof (induction xs arbitrary: i)
  case Nil
  then show ?case by simp
next
  case (Cons x xs)
  show ?case
  proof (cases i)
    case 0
    with Cons.prems show ?thesis by simp
  next
    case (Suc j)
    with Cons.prems have "j < length xs" "Q (xs ! j)" by simp_all
    from Cons.IH [OF this Cons.prems(3)] Suc show ?thesis by simp
  qed
qed

section \<open>Adding a product\<close>

text \<open>
  C10. The lookup of \<open>handleAddToOrder\<close> never returns a removed line, so the branch
  that would turn a removed line into an addon is never taken. When every line of the
  product in the draft is removed, adding the product appends one new line with
  quantity 1, an addon when a bill id is present and unclassified otherwise; the lines
  already in the draft, the removed ones among them, stay as they are.
\<close>

theorem handleAddToOrder_removed_only:
  "(\<forall>e. existingItem p (orderItems s) = Some e \<longrightarrow> itemStatus e \<noteq> Some Removed) \<and>
   ((\<forall>i \<in> set (orderItems s). pid i = product_id p \<longrightarrow> itemStatus i = Some Removed) \<longrightarrow>
      handleAddToOrder stamp p s =
        s\<lparr>orderItems := orderItems s @
            [\<lparr>product = p, quantity = 1,
              itemStatus = (if truthy (existingBillId s) then Some Addon else None),
              originalQuantity = None, localId = Some (''local-'' @ stamp),
              serverItemIds = None\<rparr>]\<rparr>)"
proof (intro conjI allI impI)
  fix e assume "existingItem p (orderItems s) = Some e"
  then show "itemStatus e \<noteq> Some Removed"
    unfolding existingItem_def by (auto dest: find_Some_holds)
next
  assume only: "\<forall>i \<in> set (orderItems s). pid i = product_id p \<longrightarrow> itemStatus i = Some Removed"
  then have "existingItem p (orderItems s) = None"
    unfolding existingItem_def by (auto simp: find_None_iff_all)
  then show "handleAddToOrder stamp p s =
        s\<lparr>orderItems := orderItems s @
            [\<lparr>product = p, quantity = 1,
              itemStatus = (if truthy (existingBillId s) then Some Addon else None),
              originalQuantity = None, localId = Some (''local-'' @ stamp),
              serverItemIds = None\<rparr>]\<rparr>"
    by (simp add: handleAddToOrder_def newItem_def)
qed

theorem handleAddToOrder_removed_only_witness:
  "orderItems (handleAddToOrder ''17-k3x9ab'' demoProduct (demoScreen [demoRemoved 0 2])) =
     [demoRemoved 0 2,
      \<lparr>product = demoProduct, quantity = 1, itemStatus = Some Addon, originalQuantity = None,
       localId = Some ''local-17-k3x9ab'', serverItemIds = None\<rparr>]"
  using handleAddToOrder_removed_only
          [of demoProduct "demoScreen [demoRemoved 0 2]" "''17-k3x9ab''"]
  by (simp add: demoScreen_def demoRemoved_def truthy_def)

text \<open>
  C6. On a submitted bill, when the draft has an original line for the product, no addon
  line for it and no unclassified line for it, adding the product appends a separate
  addon line with quantity 1 and leaves every other line as it is, so the units of the
  product in the draft grow by one (from 2 to 3 when the original line has quantity 2).
  Adding it once more raises that addon line to quantity 2 and again changes nothing
  else.
\<close>

theorem handleAddToOrder_addon_isolation:
  assumes bill: "truthy (existingBillId s)"
    and classified: "\<forall>i \<in> set (orderItems s). pid i = product_id p \<longrightarrow> itemStatus i \<noteq> None"
    and orig: "\<exists>i \<in> set (orderItems s). pid i = product_id p \<and> itemStatus i = Some Original"
    and noaddon: "\<forall>i \<in> set (orderItems s). pid i = product_id p \<longrightarrow> itemStatus i \<noteq> Some Addon"
  shows "orderItems (handleAddToOrder stamp p s) = orderItems s @ [newAddonEntry p]
    \<and> quantity (newAddonEntry p) = 1 \<and> itemStatus (newAddonEntry p) = Some Addon
    \<and> totalFor (product_id p) (orderItems (handleAddToOrder stamp p s))
        = totalFor (product_id p) (orderItems s) + 1
    \<and> orderItems (handleAddToOrder stamp' p (handleAddToOrder stamp p s))
        = orderItems s @ [(newAddonEntry p)\<lparr>quantity := 2\<rparr>]"
proof -
  let ?items = "orderItems s"
  let ?P = "\<lambda>item. pid item = product_id p \<and> itemStatus item \<noteq> Some Removed"
  from orig have "List.find ?P ?items \<noteq> None"
    by (auto simp: find_None_iff_all)
  then obtain e where e: "existingItem p ?items = Some e"
    unfolding existingItem_def by auto
  then have eP: "pid e = product_id p" "itemStatus e \<noteq> Some Removed" "e \<in> set ?items"
    unfolding existingItem_def by (auto dest: find_Some_holds)
  with classified noaddon have eo: "itemStatus e = Some Original"
    by (cases "itemStatus e") (auto intro: ItemStatus.exhaust)
  have na: "addonItem p ?items = None"
    unfolding addonItem_def using noaddon by (auto simp: find_None_iff_all)
  have first: "handleAddToOrder stamp p s = s\<lparr>orderItems := ?items @ [newAddonEntry p]\<rparr>"
    using e eo na bill by (simp add: handleAddToOrder_def)
  let ?s1 = "s\<lparr>orderItems := ?items @ [newAddonEntry p]\<rparr>"
  have e1: "existingItem p (orderItems ?s1) = Some e"
    using e unfolding existingItem_def by (simp add: find_append_Some)
  have a1: "addonItem p (orderItems ?s1) = Some (newAddonEntry p)"
    using na unfolding addonItem_def by (simp add: find_append_None newAddonEntry_def)
  have keep: "map (\<lambda>item. if pid item = product_id p \<and> itemStatus item = Some Addon
                     then item\<lparr>quantity := quantity item + 1\<rparr> else item) ?items = ?items"
    using noaddon by (intro map_id_if) auto
  have second: "orderItems (handleAddToOrder stamp' p ?s1) = ?items @ [(newAddonEntry p)\<lparr>quantity := 2\<rparr>]"
    using e1 eo a1 bill keep by (simp add: handleAddToOrder_def newAddonEntry_def)
  have tot: "totalFor (product_id p) (?items @ [newAddonEntry p]) = totalFor (product_id p) ?items + 1"
    by (simp add: totalFor_def newAddonEntry_def)
  show ?thesis using first second tot by (simp add: newAddonEntry_def)
qed

theorem handleAddToOrder_addon_isolation_witness:
  "orderItems (handleAddToOrder ''17-k3x9ab'' demoProduct (demoScreen [demoOriginal 2])) =
     [demoOriginal 2, newAddonEntry demoProduct]
   \<and> totalFor ''P'' (orderItems (handleAddToOrder ''17-k3x9ab'' demoProduct (demoScreen [demoOriginal 2]))) = 3
   \<and> orderItems (handleAddToOrder ''18-q0w1er'' demoProduct
        (handleAddToOrder ''17-k3x9ab'' demoProduct (demoScreen [demoOriginal 2]))) =
     [demoOriginal 2, (newAddonEntry demoProduct)\<lparr>quantity := 2\<rparr>]"
proof -
  let ?s = "demoScreen [demoOriginal 2]"
  have items: "orderItems ?s = [demoOriginal 2]"
    by (simp add: demoScreen_def)
  have h1: "truthy (existingBillId ?s)"
    by (simp add: demoScreen_def truthy_def)
  have h2: "\<forall>i \<in> set (orderItems ?s). pid i = product_id demoProduct \<longrightarrow> itemStatus i \<noteq> None"
    unfolding items by (simp add: demoOriginal_def)
  have h3: "\<exists>i \<in> set (orderItems ?s). pid i = product_id demoProduct \<and> itemStatus i = Some Original"
    unfolding items by (simp add: demoOriginal_def)
  have h4: "\<forall>i \<in> set (orderItems ?s). pid i = product_id demoProduct \<longrightarrow> itemStatus i \<noteq> Some Addon"
    unfolding items by (simp add: demoOriginal_def)
  have p: "product_id demoProduct = ''P''"
    by (simp add: demoProduct_def)
  have t: "totalFor ''P'' [demoOriginal 2] = 2"
    by (simp add: totalFor_def demoOriginal_def demoProduct_def)
  note th = handleAddToOrder_addon_isolation [OF h1 h2 h3 h4, of "''17-k3x9ab''" "''18-q0w1er''"]
  from th have a: "orderItems (handleAddToOrder ''17-k3x9ab'' demoProduct ?s) =
      [demoOriginal 2, newAddonEntry demoProduct]"
    unfolding items by simp
  from th have "totalFor ''P'' (orderItems (handleAddToOrder ''17-k3x9ab'' demoProduct ?s)) =
      totalFor ''P'' [demoOriginal 2] + 1"
    unfolding items p by blast
  then have b: "totalFor ''P'' (orderItems (handleAddToOrder ''17-k3x9ab'' demoProduct ?s)) = 3"
    unfolding t by simp
  from th have c: "orderItems (handleAddToOrder ''18-q0w1er'' demoProduct
        (handleAddToOrder ''17-k3x9ab'' demoProduct ?s)) =
      [demoOriginal 2, (newAddonEntry demoProduct)\<lparr>quantity := 2\<rparr>]"
    unfolding items by simp
  show ?thesis using a b c by blast
qed

section \<open>Grouping rows by product\<close>

lemma group_push_keys:
  "map fst (group_push k bi m) = (if k \<in> fst ` set m then map fst m else map fst m @ [k])"
  by (induction m) force+

lemma group_push_distinct:
  "distinct (map fst m) \<Longrightarrow> distinct (map fst (group_push k bi m))"
  by (simp add: group_push_keys)

lemma group_push_map_of:
  "map_of (group_push k bi m) =
     (map_of m)(k \<mapsto> (case map_of m k of None \<Rightarrow> [bi] | Some rows \<Rightarrow> rows @ [bi]))"
  by (induction m) (auto simp: fun_eq_iff)

lemma itemsByProduct_snoc:
  "itemsByProduct (rows @ [bi]) =
     (case pid_of bi of None \<Rightarrow> itemsByProduct rows
      | Some k \<Rightarrow> group_push k bi (itemsByProduct rows))"
  by (simp add: itemsByProduct_def split: option.splits)

lemma itemsByProduct_distinct: "distinct (map fst (itemsByProduct rows))"
proof (induction rows rule: rev_induct)
  case Nil
  show ?case by (simp add: itemsByProduct_def)
next
  case (snoc bi rows)
  then show ?case
    by (simp add: itemsByProduct_snoc group_push_distinct split: option.splits)
qed

lemma itemsByProduct_map_of:
  "map_of (itemsByProduct rows) k =
     (if \<exists>r \<in> set rows. pid_of r = Some k
      then Some (filter (\<lambda>r. pid_of r = Some k) rows) else None)"
proof (induction rows rule: rev_induct)
  case Nil
  show ?case by (simp add: itemsByProduct_def)
next
  case (snoc bi rows)
  show ?case
  proof (cases "pid_of bi")
    case None
    then show ?thesis using snoc by (simp add: itemsByProduct_snoc)
  next
    case (Some k')
    show ?thesis
    proof (cases "k' = k")
      case True
      with Some snoc show ?thesis
        by (auto simp: itemsByProduct_snoc group_push_map_of filter_empty_conv)
    next
      case False
      with Some snoc show ?thesis
        by (auto simp: itemsByProduct_snoc group_push_map_of)
    qed
  qed
qed

lemma itemsByProduct_entry:
  assumes "entry \<in> set (itemsByProduct rows)"
  shows "snd entry = filter (\<lambda>r. pid_of r = Some (fst entry)) rows"
proof -
  obtain k g where e: "entry = (k, g)" by (cases entry)
  with assms itemsByProduct_distinct [of rows] have "map_of (itemsByProduct rows) k = Some g"
    by simp
  then show ?thesis
    unfolding e itemsByProduct_map_of by (simp split: if_splits)
qed

lemma itemsByProduct_keys:
  "fst ` set (itemsByProduct rows) = {k. \<exists>r \<in> set rows. pid_of r = Some k}"
proof -
  have "k \<in> fst ` set (itemsByProduct rows) \<longleftrightarrow> (\<exists>r \<in> set rows. pid_of r = Some k)" for k
  proof -
    have "k \<in> fst ` set (itemsByProduct rows) \<longleftrightarrow> map_of (itemsByProduct rows) k \<noteq> None"
      by (simp add: map_of_eq_None_iff)
    also have "\<dots> \<longleftrightarrow> (\<exists>r \<in> set rows. pid_of r = Some k)"
      by (simp add: itemsByProduct_map_of)
    finally show ?thesis .
  qed
  then show ?thesis by blast
qed

section \<open>The lines built by sync\<close>

lemma protoProduct_id [simp]: "product_id (protoProduct k r) = k"
  by (simp add: protoProduct_def Let_def)

lemma rowIds_set:
  "set (rowIds xs) = {i. i \<noteq> [] \<and> (\<exists>r \<in> set xs. item_id r = Some i)}"
  by (induction xs) (auto simp: rowIds_def truthy_def split: option.splits)

lemma mapGroup_pid: "l \<in> set (mapGroup (k, g)) \<Longrightarrow> pid l = k"
  by (auto simp: mapGroup_def protoProduct_def Let_def split: list.splits)

lemma mapGroup_unfold:
  "mapGroup (k, g) =
     (case filter isActiveRow g of
        [] \<Rightarrow> []
      | proto # _ \<Rightarrow>
          [\<lparr>product = protoProduct k proto,
            quantity = sum_list (map qty0 (filter isActiveRow g)),
            itemStatus = Some Original,
            originalQuantity = Some (sum_list (map qty0 (filter isActiveRow g))),
            localId = Some (''srv-'' @ k),
            serverItemIds = Some (rowIds (filter isActiveRow g))\<rparr>])
     @
     (case filter isCanceledRow g of
        [] \<Rightarrow> []
      | proto # _ \<Rightarrow>
          [\<lparr>product = protoProduct k proto, quantity = 0, itemStatus = Some Removed,
            originalQuantity = Some (sum_list (map qty0 (filter isCanceledRow g))),
            localId = Some (''srv-removed-'' @ k),
            serverItemIds = Some (rowIds (filter isCanceledRow g))\<rparr>])"
  unfolding mapGroup_def Let_def foldl_add_sum by (simp cong: list.case_cong)

lemma mapGroup_original:
  assumes "filter isActiveRow g \<noteq> []"
  shows "filter (\<lambda>l. itemStatus l = Some Original) (mapGroup (k, g)) =
     [\<lparr>product = protoProduct k (hd (filter isActiveRow g)),
       quantity = sum_list (map qty0 (filter isActiveRow g)),
       itemStatus = Some Original,
       originalQuantity = Some (sum_list (map qty0 (filter isActiveRow g))),
       localId = Some (''srv-'' @ k),
       serverItemIds = Some (rowIds (filter isActiveRow g))\<rparr>]"
proof -
  obtain a as where a: "filter isActiveRow g = a # as"
    using assms by (cases "filter isActiveRow g") auto
  show ?thesis
    unfolding mapGroup_unfold a by (cases "filter isCanceledRow g") simp_all
qed

lemma mapGroup_no_original:
  "filter isActiveRow g = [] \<Longrightarrow>
   filter (\<lambda>l. itemStatus l = Some Original) (mapGroup (k, g)) = []"
  unfolding mapGroup_unfold by (cases "filter isCanceledRow g") simp_all

lemma mapGroup_removed:
  "filter (\<lambda>l. itemStatus l = Some Removed) (mapGroup (k, g)) =
     (if filter isCanceledRow g = [] then []
      else [\<lparr>product = protoProduct k (hd (filter isCanceledRow g)),
             quantity = 0, itemStatus = Some Removed,
             originalQuantity = Some (sum_list (map qty0 (filter isCanceledRow g))),
             localId = Some (''srv-removed-'' @ k),
             serverItemIds = Some (rowIds (filter isCanceledRow g))\<rparr>])"
proof (cases "filter isCanceledRow g")
  case Nil
  then show ?thesis
    unfolding mapGroup_unfold by (cases "filter isActiveRow g") simp_all
next
  case (Cons c cs)
  then show ?thesis
    unfolding mapGroup_unfold by (cases "filter isActiveRow g") simp_all
qed

lemma mapGroup_status:
  "l \<in> set (mapGroup (k, g)) \<Longrightarrow> itemStatus l = Some Original \<or> itemStatus l = Some Removed"
  unfolding mapGroup_unfold by (auto split: list.splits)

lemma filter_concat_mapGroup:
  "distinct (map fst groups) \<Longrightarrow>
   filter (\<lambda>l. pid l = k) (concat (map mapGroup groups)) =
     (case map_of groups k of None \<Rightarrow> [] | Some g \<Rightarrow> mapGroup (k, g))"
proof (induction groups)
  case Nil
  show ?case by simp
next
  case (Cons e groups)
  obtain k' g' where e: "e = (k', g')" by (cases e)
  show ?case
  proof (cases "k' = k")
    case True
    have own: "filter (\<lambda>l. pid l = k) (mapGroup (k, g')) = mapGroup (k, g')"
      by (rule filter_True) (auto dest: mapGroup_pid)
    from Cons.prems e True have "map_of groups k = None"
      by (auto simp: map_of_eq_None_iff)
    with Cons e True own show ?thesis by simp
  next
    case False
    have "filter (\<lambda>l. pid l = k) (mapGroup (k', g')) = []"
      using False by (auto simp: filter_empty_conv dest: mapGroup_pid)
    with Cons e False show ?thesis by simp
  qed
qed

lemma mappedItems_of_product:
  "filter (\<lambda>l. pid l = k) (mappedItems bill) =
     (let rows = (case bill_items bill of None \<Rightarrow> [] | Some rows \<Rightarrow> rows);
          g = filter (\<lambda>r. pid_of r = Some k) rows
      in if g = [] then [] else mapGroup (k, g))"
  by (auto simp: mappedItems_def filter_concat_mapGroup itemsByProduct_distinct
      itemsByProduct_map_of Let_def filter_empty_conv)

lemma mappedItems_status:
  "l \<in> set (mappedItems bill) \<Longrightarrow> itemStatus l = Some Original \<or> itemStatus l = Some Removed"
  unfolding mappedItems_def by (auto dest: mapGroup_status)

lemma fetchLastOrder_success:
  assumes "truthy (apiUrl s)" "tableNumber s = Some t" "t \<noteq> 0" "\<not> isLoadingIp s"
    and "resp_status body = Some ''success''" "resp_data body = Some bill"
  shows "orderItems (fetchLastOrder suppress (Resolved code body) s) =
           (if suppress then filter (\<lambda>i. itemStatus i \<noteq> Some Removed) (mappedItems bill)
            else mappedItems bill)"
  using assms by (simp add: fetchLastOrder_def Let_def)

lemma synced_original_lines:
  assumes "truthy (apiUrl s)" "tableNumber s = Some t" "t \<noteq> 0" "\<not> isLoadingIp s"
    and "resp_status body = Some ''success''" "resp_data body = Some bill"
  shows "filter (\<lambda>l. pid l = k \<and> itemStatus l = Some Original)
           (orderItems (fetchLastOrder suppress (Resolved code body) s)) =
         filter (\<lambda>l. itemStatus l = Some Original) (filter (\<lambda>l. pid l = k) (mappedItems bill))"
  unfolding fetchLastOrder_success [OF assms]
  by (cases suppress) (auto intro!: filter_cong)

lemma synced_removed_lines:
  assumes "truthy (apiUrl s)" "tableNumber s = Some t" "t \<noteq> 0" "\<not> isLoadingIp s"
    and "resp_status body = Some ''success''" "resp_data body = Some bill"
  shows "filter (\<lambda>l. pid l = k \<and> itemStatus l = Some Removed)
           (orderItems (fetchLastOrder suppress (Resolved code body) s)) =
         (if suppress then []
          else filter (\<lambda>l. itemStatus l = Some Removed) (filter (\<lambda>l. pid l = k) (mappedItems bill)))"
  unfolding fetchLastOrder_success [OF assms]
  by (cases suppress) (auto simp: filter_empty_conv)

lemma synced_removed_line:
  assumes guard: "truthy (apiUrl s)" "tableNumber s = Some t" "t \<noteq> 0" "\<not> isLoadingIp s"
    and body: "resp_status body = Some ''success''" "resp_data body = Some bill"
    and rows: "rows = (case bill_items bill of None \<Rightarrow> [] | Some rs \<Rightarrow> rs)"
    and l: "l \<in> set (orderItems (fetchLastOrder suppress (Resolved code body) s))"
       "itemStatus l = Some Removed"
  shows "quantity l = 0 \<and>
     originalQuantity l =
       Some (sum_list (map qty0 (filter (\<lambda>r. pid_of r = Some (pid l) \<and> isCanceledRow r) rows)))"
proof -
  let ?k = "pid l"
  let ?g = "filter (\<lambda>r. pid_of r = Some ?k) rows"
  let ?lines = "orderItems (fetchLastOrder suppress (Resolved code body) s)"
  have can: "filter isCanceledRow ?g = filter (\<lambda>r. pid_of r = Some ?k \<and> isCanceledRow r) rows"
    by simp
  have grp: "filter (\<lambda>x. pid x = ?k) (mappedItems bill) = (if ?g = [] then [] else mapGroup (?k, ?g))"
    using rows by (simp add: mappedItems_of_product)
  from l have "l \<in> set (filter (\<lambda>x. pid x = ?k \<and> itemStatus x = Some Removed) ?lines)"
    by simp
  then have "l \<in> set (filter (\<lambda>x. itemStatus x = Some Removed)
                 (filter (\<lambda>x. pid x = ?k) (mappedItems bill)))"
    unfolding synced_removed_lines [OF guard body] by (simp split: if_splits)
  then have "l \<in> set (filter (\<lambda>x. itemStatus x = Some Removed) (mapGroup (?k, ?g)))"
    unfolding grp by (simp split: if_splits del: filter_filter)
  then have eq: "l = \<lparr>product = protoProduct ?k (hd (filter (\<lambda>r. pid_of r = Some ?k \<and> isCanceledRow r) rows)),
             quantity = 0, itemStatus = Some Removed,
             originalQuantity = Some (sum_list (map qty0 (filter (\<lambda>r. pid_of r = Some ?k \<and> isCanceledRow r) rows))),
             localId = Some (''srv-removed-'' @ ?k),
             serverItemIds = Some (rowIds (filter (\<lambda>r. pid_of r = Some ?k \<and> isCanceledRow r) rows))\<rparr>"
    unfolding mapGroup_removed can by (simp split: if_splits)
  from arg_cong [OF eq, of quantity] arg_cong [OF eq, of originalQuantity]
  show ?thesis by simp
qed

section \<open>Sync\<close>

text \<open>
  C3. When the server answers \<open>success\<close> with a bill, and the bill has active rows
  (status not \<open>canceled\<close>, quantity above 0) for a product, the synced draft has exactly
  one original line for that product; its quantity is the sum of the quantities of those
  rows and its \<open>serverItemIds\<close> are the ids of those rows (a row whose id is missing or
  empty has none to record). For every product the draft has at most one removed line.
\<close>

theorem fetchLastOrder_aggregates:
  assumes guard: "truthy (apiUrl s)" "tableNumber s = Some t" "t \<noteq> 0" "\<not> isLoadingIp s"
    and body: "resp_status body = Some ''success''" "resp_data body = Some bill"
    and rows: "bill_items bill = Some rows"
    and active: "\<exists>r \<in> set rows. pid_of r = Some k \<and> isActiveRow r"
  shows "(\<exists>l ids.
            filter (\<lambda>l. pid l = k \<and> itemStatus l = Some Original)
              (orderItems (fetchLastOrder suppress (Resolved code body) s)) = [l]
          \<and> quantity l = sum_list (map qty0 (filter (\<lambda>r. pid_of r = Some k \<and> isActiveRow r) rows))
          \<and> serverItemIds l = Some ids
          \<and> set ids = {i. i \<noteq> [] \<and> (\<exists>r \<in> set rows. pid_of r = Some k \<and> isActiveRow r \<and> item_id r = Some i)})
       \<and> (\<forall>k'. length (filter (\<lambda>l. pid l = k' \<and> itemStatus l = Some Removed)
                   (orderItems (fetchLastOrder suppress (Resolved code body) s))) \<le> 1)"
proof (intro conjI allI)
  let ?g = "filter (\<lambda>r. pid_of r = Some k) rows"
  let ?act = "filter (\<lambda>r. pid_of r = Some k \<and> isActiveRow r) rows"
  let ?lines = "orderItems (fetchLastOrder suppress (Resolved code body) s)"
  have act: "filter isActiveRow ?g = ?act"
    by simp
  from active have ne: "?act \<noteq> []" "?g \<noteq> []"
    by (auto simp: filter_empty_conv)
  have grp: "filter (\<lambda>l. pid l = k) (mappedItems bill) = mapGroup (k, ?g)"
    using ne rows by (simp add: mappedItems_of_product)
  have "filter (\<lambda>l. pid l = k \<and> itemStatus l = Some Original) ?lines =
      filter (\<lambda>l. itemStatus l = Some Original) (mapGroup (k, ?g))"
    unfolding synced_original_lines [OF guard body] grp ..
  also have "\<dots> =
      [\<lparr>product = protoProduct k (hd ?act), quantity = sum_list (map qty0 ?act),
        itemStatus = Some Original, originalQuantity = Some (sum_list (map qty0 ?act)),
        localId = Some (''srv-'' @ k), serverItemIds = Some (rowIds ?act)\<rparr>]"
    using ne(1) mapGroup_original [of ?g k] unfolding act by blast
  finally have lines: "filter (\<lambda>l. pid l = k \<and> itemStatus l = Some Original) ?lines =
      [\<lparr>product = protoProduct k (hd ?act), quantity = sum_list (map qty0 ?act),
        itemStatus = Some Original, originalQuantity = Some (sum_list (map qty0 ?act)),
        localId = Some (''srv-'' @ k), serverItemIds = Some (rowIds ?act)\<rparr>]" .
  have ids: "set (rowIds ?act) =
      {i. i \<noteq> [] \<and> (\<exists>r \<in> set rows. pid_of r = Some k \<and> isActiveRow r \<and> item_id r = Some i)}"
    unfolding rowIds_set by auto
  show "\<exists>l ids.
            filter (\<lambda>l. pid l = k \<and> itemStatus l = Some Original) ?lines = [l]
          \<and> quantity l = sum_list (map qty0 ?act)
          \<and> serverItemIds l = Some ids
          \<and> set ids = {i. i \<noteq> [] \<and> (\<exists>r \<in> set rows. pid_of r = Some k \<and> isActiveRow r \<and> item_id r = Some i)}"
    unfolding lines using ids by simp
next
  fix k'
  let ?lines = "orderItems (fetchLastOrder suppress (Resolved code body) s)"
  let ?g = "filter (\<lambda>r. pid_of r = Some k') rows"
  have grp: "filter (\<lambda>l. pid l = k') (mappedItems bill) = (if ?g = [] then [] else mapGroup (k', ?g))"
    using rows by (simp add: mappedItems_of_product)
  have "length (filter (\<lambda>l. itemStatus l = Some Removed) (filter (\<lambda>l. pid l = k') (mappedItems bill))) \<le> 1"
    unfolding grp by (simp add: mapGroup_removed del: filter_filter)
  then show "length (filter (\<lambda>l. pid l = k' \<and> itemStatus l = Some Removed) ?lines) \<le> 1"
    unfolding synced_removed_lines [OF guard body] by simp
qed

theorem fetchLastOrder_aggregates_witness:
  "\<exists>l ids.
     filter (\<lambda>l. pid l = ''P'' \<and> itemStatus l = Some Original)
       (orderItems (fetchLastOrder False
          (Resolved 200 \<lparr>resp_status = Some ''success'',
             resp_data = Some (demoBill ''pending''
               [demoRow ''i1'' 2 ''active'', demoRow ''i2'' 3 ''active'',
                demoRow ''i3'' 1 ''canceled'', demoRow ''i4'' 4 ''canceled''])\<rparr>)
          (demoScreen []))) = [l]
     \<and> quantity l = 5 \<and> serverItemIds l = Some ids \<and> set ids = {''i1'', ''i2''}"
proof -
  let ?rows = "[demoRow ''i1'' 2 ''active'', demoRow ''i2'' 3 ''active'',
                demoRow ''i3'' 1 ''canceled'', demoRow ''i4'' 4 ''canceled'']"
  let ?body = "\<lparr>resp_status = Some ''success'', resp_data = Some (demoBill ''pending'' ?rows)\<rparr>"
  have g: "truthy (apiUrl (demoScreen []))" "tableNumber (demoScreen []) = Some 4" "(4::int) \<noteq> 0"
    "\<not> isLoadingIp (demoScreen [])"
    by (simp_all add: demoScreen_def truthy_def)
  have b: "resp_status ?body = Some ''success''" "resp_data ?body = Some (demoBill ''pending'' ?rows)"
    "bill_items (demoBill ''pending'' ?rows) = Some ?rows"
    by (simp_all add: demoBill_def)
  have a: "\<exists>r \<in> set ?rows. pid_of r = Some ''P'' \<and> isActiveRow r"
    by (simp add: demoRow_def pid_of_def isActiveRow_def qty0_def)
  have q: "sum_list (map qty0 (filter (\<lambda>r. pid_of r = Some ''P'' \<and> isActiveRow r) ?rows)) = 5"
    by (simp add: demoRow_def pid_of_def isActiveRow_def qty0_def)
  have i: "{i. i \<noteq> [] \<and> (\<exists>r \<in> set ?rows. pid_of r = Some ''P'' \<and> isActiveRow r \<and> item_id r = Some i)}
      = {''i1'', ''i2''}"
    by (auto simp: demoRow_def pid_of_def isActiveRow_def qty0_def)
  show ?thesis
    using fetchLastOrder_aggregates [OF g b a, of False 200] unfolding q i by blast
qed

text \<open>
  C1. The claim asks that a \<open>success\<close> answer whose bill is, say, \<open>completed\<close> clears the
  draft and leaves no bill id. \<open>fetchLastOrder\<close> never reads the status of the bill: the
  synced state is the same whatever the status is, and for the completed bill \<open>b1\<close> with
  one active row the bill id is kept and an original line is built from the row.
\<close>

theorem fetchLastOrder_ignores_bill_status:
  "fetchLastOrder suppress (Resolved code \<lparr>resp_status = Some ''success'',
       resp_data = Some (bill\<lparr>bill_status := st\<rparr>)\<rparr>) s =
   fetchLastOrder suppress (Resolved code \<lparr>resp_status = Some ''success'',
       resp_data = Some bill\<rparr>) s
   \<and> existingBillId (fetchLastOrder False
         (Resolved 200 \<lparr>resp_status = Some ''success'',
            resp_data = Some (demoBill ''completed'' [demoRow ''i1'' 2 ''active''])\<rparr>)
         (demoScreen [])) = Some ''b1''
   \<and> map (\<lambda>l. (pid l, quantity l, itemStatus l))
         (orderItems (fetchLastOrder False
           (Resolved 200 \<lparr>resp_status = Some ''success'',
              resp_data = Some (demoBill ''completed'' [demoRow ''i1'' 2 ''active''])\<rparr>)
           (demoScreen []))) = [(''P'', 2, Some Original)]"
proof (intro conjI)
  show "fetchLastOrder suppress (Resolved code \<lparr>resp_status = Some ''success'',
       resp_data = Some (bill\<lparr>bill_status := st\<rparr>)\<rparr>) s =
   fetchLastOrder suppress (Resolved code \<lparr>resp_status = Some ''success'',
       resp_data = Some bill\<rparr>) s"
    by (simp add: fetchLastOrder_def mappedItems_def)
next
  let ?s = "fetchLastOrder False
         (Resolved 200 \<lparr>resp_status = Some ''success'',
            resp_data = Some (demoBill ''completed'' [demoRow ''i1'' 2 ''active''])\<rparr>)
         (demoScreen [])"
  have m: "mappedItems (demoBill ''completed'' [demoRow ''i1'' 2 ''active'']) =
      [\<lparr>product = protoProduct ''P'' (demoRow ''i1'' 2 ''active''), quantity = 2,
        itemStatus = Some Original, originalQuantity = Some 2,
        localId = Some ''srv-P'', serverItemIds = Some [''i1'']\<rparr>]"
    by (simp add: mappedItems_def demoBill_def itemsByProduct_def demoRow_def pid_of_def
        mapGroup_def isActiveRow_def isCanceledRow_def qty0_def rowIds_def truthy_def Let_def)
  show "existingBillId ?s = Some ''b1''"
    by (simp add: fetchLastOrder_def demoScreen_def truthy_def demoBill_def or_null_def Let_def)
  show "map (\<lambda>l. (pid l, quantity l, itemStatus l)) (orderItems ?s) = [(''P'', 2, Some Original)]"
  proof -
    have "orderItems ?s = mappedItems (demoBill ''completed'' [demoRow ''i1'' 2 ''active''])"
      by (simp add: fetchLastOrder_def demoScreen_def truthy_def Let_def)
    then show ?thesis
      unfolding m by simp
  qed
qed

theorem fetchLastOrder_ignores_bill_status_witness:
  "fetchLastOrder False (Resolved 200 \<lparr>resp_status = Some ''success'',
       resp_data = Some ((demoBill ''pending'' [demoRow ''i1'' 2 ''active''])
                           \<lparr>bill_status := Some ''completed''\<rparr>)\<rparr>) (demoScreen []) =
   fetchLastOrder False (Resolved 200 \<lparr>resp_status = Some ''success'',
       resp_data = Some (demoBill ''pending'' [demoRow ''i1'' 2 ''active''])\<rparr>) (demoScreen [])"
  using fetchLastOrder_ignores_bill_status
          [where suppress = False and code = 200 and st = "Some ''completed''"
             and bill = "demoBill ''pending'' [demoRow ''i1'' 2 ''active'']"
             and s = "demoScreen []"]
  by blast

section \<open>Decrement and restore\<close>

text \<open>The draft after a decrement of an original (or unclassified) line on a submitted bill.\<close>

lemma handleDecrementQuantity_original:
  assumes idx: "findIndex (\<lambda>i. localId i = Some lid) (orderItems s) = Some idx"
    and target: "target = orderItems s ! idx"
    and orig: "itemStatus target = None \<or> itemStatus target = Some Original"
    and bill: "truthy (existingBillId s)"
    and newQ: "newQ = max 0 (quantity target - 1)"
    and T: "T = (case List.find (\<lambda>sub. pid sub = pid target) (originalSubmittedItems s) of
                   Some sub \<Rightarrow> quantity sub
                 | None \<Rightarrow> quantity target +
                     (case findIndex (\<lambda>i. pid i = pid target \<and> itemStatus i = Some Removed) (orderItems s) of
                        Some r \<Rightarrow> quantity (orderItems s ! r) | None \<Rightarrow> 0))"
  shows "orderItems (handleDecrementQuantity now lid s) =
     (case findIndex (\<lambda>i. pid i = pid target \<and> itemStatus i = Some Removed) (orderItems s) of
        Some r \<Rightarrow>
          (orderItems s)[idx := target\<lparr>quantity := newQ\<rparr>,
             r := (orderItems s ! r)\<lparr>quantity := quantity (orderItems s ! r) + (quantity target - newQ),
                                      originalQuantity := Some T\<rparr>]
      | None \<Rightarrow>
          (orderItems s)[idx := target\<lparr>quantity := newQ\<rparr>] @
            [\<lparr>product = product target, quantity = quantity target - newQ,
              itemStatus = Some Removed, originalQuantity = Some T,
              localId = Some (''removed-'' @ pid target @ ''-'' @ now), serverItemIds = None\<rparr>])"
proof -
  let ?items = "orderItems s"
  let ?R = "\<lambda>i. pid i = pid target \<and> itemStatus i = Some Removed"
  let ?new = "?items[idx := target\<lparr>quantity := newQ\<rparr>]"
  from findIndex_Some [OF idx] have lt: "idx < length ?items" by simp
  have "map ?R ?new = map ?R ?items"
    using lt target by (simp add: map_update list_update_same_conv)
  then have same: "findIndex ?R ?new = findIndex ?R ?items"
    by (rule findIndex_cong_map)
  have nth: "?new ! r = ?items ! r" if "findIndex ?R ?items = Some r" for r
  proof -
    from findIndex_Some [OF that] have "itemStatus (?items ! r) = Some Removed" by simp
    with orig target have "r \<noteq> idx" by auto
    then show ?thesis by simp
  qed
  show ?thesis
  proof (cases "findIndex ?R ?items")
    case None
    with same have "findIndex ?R ?new = None" by simp
    with None idx orig bill show ?thesis
      unfolding handleDecrementQuantity_def Let_def target newQ T
      by (simp cong: option.case_cong)
  next
    case (Some r)
    with same have "findIndex ?R ?new = Some r" by simp
    with Some idx orig bill nth [OF Some] show ?thesis
      unfolding handleDecrementQuantity_def Let_def target newQ T
      by (simp cong: option.case_cong)
  qed
qed

lemma decrement_moves_units:
  assumes idx: "findIndex (\<lambda>i. localId i = Some lid) (orderItems s) = Some idx"
    and target: "target = orderItems s ! idx"
    and orig: "itemStatus target = None \<or> itemStatus target = Some Original"
    and bill: "truthy (existingBillId s)"
  shows "sum_list (map quantity (filter (\<lambda>i. pid i = pid target)
            (orderItems (handleDecrementQuantity now lid s)))) =
         sum_list (map quantity (filter (\<lambda>i. pid i = pid target) (orderItems s)))"
proof -
  let ?items = "orderItems s"
  let ?Q = "\<lambda>i. pid i = pid target"
  let ?R = "\<lambda>i. pid i = pid target \<and> itemStatus i = Some Removed"
  let ?newQ = "max 0 (quantity target - 1)"
  let ?new = "?items[idx := target\<lparr>quantity := ?newQ\<rparr>]"
  from findIndex_Some [OF idx] have lt: "idx < length ?items" by simp
  have new: "sum_list (map quantity (filter ?Q ?new)) =
      sum_list (map quantity (filter ?Q ?items)) - quantity target + ?newQ"
    using sum_filter_update [of idx ?items ?Q "target\<lparr>quantity := ?newQ\<rparr>" quantity] lt target
    by simp
  note res = handleDecrementQuantity_original [OF idx target orig bill refl refl, of now]
  show ?thesis
  proof (cases "findIndex ?R ?items")
    case None
    then show ?thesis unfolding res using new by simp
  next
    case (Some r)
    from findIndex_Some [OF Some] have r: "r < length ?items" "?R (?items ! r)" by simp_all
    with orig target have ne: "r \<noteq> idx" by auto
    let ?y = "(?items ! r)\<lparr>quantity := quantity (?items ! r) + (quantity target - ?newQ),
           originalQuantity := Some (case List.find (\<lambda>sub. pid sub = pid target) (originalSubmittedItems s) of
                   Some sub \<Rightarrow> quantity sub
                 | None \<Rightarrow> quantity target +
                     (case findIndex ?R ?items of
                        Some r \<Rightarrow> quantity (?items ! r) | None \<Rightarrow> 0))\<rparr>"
    have "sum_list (map quantity (filter ?Q (?new[r := ?y]))) =
        sum_list (map quantity (filter ?Q ?new)) - quantity (?new ! r) + quantity ?y"
      using r ne by (intro sum_filter_update) simp_all
    also have "\<dots> = sum_list (map quantity (filter ?Q ?items))"
      using new ne by simp
    finally show ?thesis unfolding res Some by simp
  qed
qed

lemma decrement_removed_line:
  assumes idx: "findIndex (\<lambda>i. localId i = Some lid) (orderItems s) = Some idx"
    and target: "target = orderItems s ! idx"
    and orig: "itemStatus target = None \<or> itemStatus target = Some Original"
    and bill: "truthy (existingBillId s)"
  shows "\<exists>r'. List.find (\<lambda>i. pid i = pid target \<and> itemStatus i = Some Removed)
                 (orderItems (handleDecrementQuantity now lid s)) = Some r'
     \<and> quantity r' =
         (case List.find (\<lambda>i. pid i = pid target \<and> itemStatus i = Some Removed) (orderItems s) of
            Some r \<Rightarrow> quantity r | None \<Rightarrow> 0) + (quantity target - max 0 (quantity target - 1))
     \<and> originalQuantity r' =
         Some (case List.find (\<lambda>sub. pid sub = pid target) (originalSubmittedItems s) of
                 Some sub \<Rightarrow> quantity sub
               | None \<Rightarrow> quantity target +
                   (case List.find (\<lambda>i. pid i = pid target \<and> itemStatus i = Some Removed) (orderItems s) of
                      Some r \<Rightarrow> quantity r | None \<Rightarrow> 0))"
proof -
  let ?items = "orderItems s"
  let ?R = "\<lambda>i. pid i = pid target \<and> itemStatus i = Some Removed"
  let ?newQ = "max 0 (quantity target - 1)"
  let ?new = "?items[idx := target\<lparr>quantity := ?newQ\<rparr>]"
  from findIndex_Some [OF idx] have lt: "idx < length ?items" by simp
  have "map ?R ?new = map ?R ?items"
    using lt target by (simp add: map_update list_update_same_conv)
  then have same: "findIndex ?R ?new = findIndex ?R ?items"
    by (rule findIndex_cong_map)
  note res = handleDecrementQuantity_original [OF idx target orig bill refl refl, of now]
  show ?thesis
  proof (cases "findIndex ?R ?items")
    case None
    then have f0: "List.find ?R ?items = None"
      by (simp add: find_findIndex)
    from None same have f1: "List.find ?R ?new = None"
      by (simp add: find_findIndex)
    show ?thesis
      unfolding res None f0 by (simp add: find_append_None [OF f1] cong: option.case_cong)
  next
    case (Some r)
    then have f0: "List.find ?R ?items = Some (?items ! r)"
      by (simp add: find_findIndex)
    from Some same have i1: "findIndex ?R ?new = Some r" by simp
    from findIndex_Some [OF Some] have R: "?R (?items ! r)" by simp
    show ?thesis
      unfolding res Some f0 using R
      by (simp add: find_update_at_first [OF i1] cong: option.case_cong)
  qed
qed

lemma restoreRemoved_line:
  "i \<in> set (orderItems (restoreRemoved item s)) \<Longrightarrow> localId i = localId item \<Longrightarrow>
   itemStatus i = Some Original \<and> originalQuantity i = None \<and>
   quantity i = (case originalQuantity item of None \<Rightarrow> 1 | Some q \<Rightarrow> if q = 0 then 1 else q)"
  by (auto simp: restoreRemoved_def)

lemma getTotalOrderCost_skips_removed:
  "getTotalOrderCost items = getTotalOrderCost (filter (\<lambda>i. itemStatus i \<noteq> Some Removed) items)"
  by (simp add: getTotalOrderCost_def)

text \<open>
  C2. On the submitted bill \<open>b1\<close> with one original line of 5 units of the product, two
  decrements leave the original line at 3 and a removed line with quantity 2 and
  \<open>originalQuantity\<close> 5, as the claim says. The restore button on that removed line then
  turns it into an original line of 5 units and leaves the original line of 3 units in
  place: the draft has two original lines for the product, 8 units in all, where the
  claim asks for a single original line of 5.
\<close>

theorem decrement_twice_then_restore:
  "orderItems (handleDecrementQuantity ''1700000000001'' ''srv-P''
      (handleDecrementQuantity ''1700000000000'' ''srv-P'' (demoScreen [demoOriginal 5]))) =
     [(demoOriginal 5)\<lparr>quantity := 3\<rparr>,
      \<lparr>product = demoProduct, quantity = 2, itemStatus = Some Removed,
       originalQuantity = Some 5, localId = Some ''removed-P-1700000000000'',
       serverItemIds = None\<rparr>]
   \<and> orderItems (restoreRemoved
        \<lparr>product = demoProduct, quantity = 2, itemStatus = Some Removed,
         originalQuantity = Some 5, localId = Some ''removed-P-1700000000000'',
         serverItemIds = None\<rparr>
        (handleDecrementQuantity ''1700000000001'' ''srv-P''
          (handleDecrementQuantity ''1700000000000'' ''srv-P'' (demoScreen [demoOriginal 5])))) =
     [(demoOriginal 5)\<lparr>quantity := 3\<rparr>,
      \<lparr>product = demoProduct, quantity = 5, itemStatus = Some Original,
       originalQuantity = None, localId = Some ''removed-P-1700000000000'',
       serverItemIds = None\<rparr>]
   \<and> totalFor ''P'' (orderItems (restoreRemoved
        \<lparr>product = demoProduct, quantity = 2, itemStatus = Some Removed,
         originalQuantity = Some 5, localId = Some ''removed-P-1700000000000'',
         serverItemIds = None\<rparr>
        (handleDecrementQuantity ''1700000000001'' ''srv-P''
          (handleDecrementQuantity ''1700000000000'' ''srv-P'' (demoScreen [demoOriginal 5]))))) = 8"
proof -
  let ?s0 = "demoScreen [demoOriginal 5]"
  let ?r1 = "\<lparr>product = demoProduct, quantity = 1, itemStatus = Some Removed,
       originalQuantity = Some 5, localId = Some ''removed-P-1700000000000'',
       serverItemIds = None\<rparr>"
  let ?r2 = "\<lparr>product = demoProduct, quantity = 2, itemStatus = Some Removed,
       originalQuantity = Some 5, localId = Some ''removed-P-1700000000000'',
       serverItemIds = None\<rparr>"
  have s1: "handleDecrementQuantity ''1700000000000'' ''srv-P'' ?s0 =
      ?s0\<lparr>orderItems := [(demoOriginal 5)\<lparr>quantity := 4\<rparr>, ?r1], hasPendingChanges := True\<rparr>"
    by (simp add: handleDecrementQuantity_def demoScreen_def demoOriginal_def demoProduct_def
        truthy_def Let_def)
  have s2: "handleDecrementQuantity ''1700000000001'' ''srv-P''
       (?s0\<lparr>orderItems := [(demoOriginal 5)\<lparr>quantity := 4\<rparr>, ?r1], hasPendingChanges := True\<rparr>) =
      ?s0\<lparr>orderItems := [(demoOriginal 5)\<lparr>quantity := 3\<rparr>, ?r2], hasPendingChanges := True\<rparr>"
    by (simp add: handleDecrementQuantity_def demoScreen_def demoOriginal_def demoProduct_def
        truthy_def Let_def)
  have r: "orderItems (restoreRemoved ?r2
        (?s0\<lparr>orderItems := [(demoOriginal 5)\<lparr>quantity := 3\<rparr>, ?r2], hasPendingChanges := True\<rparr>)) =
     [(demoOriginal 5)\<lparr>quantity := 3\<rparr>,
      \<lparr>product = demoProduct, quantity = 5, itemStatus = Some Original,
       originalQuantity = None, localId = Some ''removed-P-1700000000000'',
       serverItemIds = None\<rparr>]"
    by (simp add: restoreRemoved_def demoOriginal_def)
  have t: "totalFor ''P'' [(demoOriginal 5)\<lparr>quantity := 3\<rparr>,
      \<lparr>product = demoProduct, quantity = 5, itemStatus = Some Original,
       originalQuantity = None, localId = Some ''removed-P-1700000000000'',
       serverItemIds = None\<rparr>] = 8"
    by (simp add: totalFor_def demoOriginal_def demoProduct_def)
  show ?thesis
    unfolding s1 s2 r t by simp
qed

text \<open>
  C8. As stated the claim fails: after one decrement of the original line of 5 units on
  the submitted bill \<open>b1\<close> the draft holds that line with 4 units and a removed line with
  quantity 1, not 0.
\<close>

theorem removed_line_quantity_counterexample:
  "map itemStatus (orderItems (handleDecrementQuantity ''1700000000000'' ''srv-P''
      (demoScreen [demoOriginal 5]))) = [Some Original, Some Removed]
   \<and> map quantity (orderItems (handleDecrementQuantity ''1700000000000'' ''srv-P''
      (demoScreen [demoOriginal 5]))) = [4, 1]"
  by (simp add: handleDecrementQuantity_def demoScreen_def demoOriginal_def demoProduct_def
      truthy_def Let_def)

text \<open>
  C8, amended. A removed line built by sync has quantity 0 and its \<open>originalQuantity\<close>
  is the summed quantity of the product's canceled rows. A decrement of an original (or
  unclassified) line on a submitted bill leaves a removed line of the product whose
  quantity is the count of units removed so far (what the removed line held before plus
  the units taken off the decremented line: one unit when that line stood at 1 or more,
  none when it stood at 0, so this quantity can be 0) and whose \<open>originalQuantity\<close> is the
  pre-removal amount: the last submitted quantity of the product or, when there is
  none, the quantity of the line before the decrement plus the units removed before;
  the units of the product over all its lines are unchanged. Restore turns every line
  with the restored line's \<open>localId\<close> into an original line whose quantity is the stored
  \<open>originalQuantity\<close> (1 when that is missing or 0). In every draft the subtotal skips
  removed lines, so they contribute 0 to it.
\<close>

theorem removed_lines_by_operation:
  "(truthy (apiUrl s) \<and> tableNumber s = Some t \<and> t \<noteq> 0 \<and> \<not> isLoadingIp s \<and>
    resp_status body = Some ''success'' \<and> resp_data body = Some bill \<longrightarrow>
      (\<forall>l \<in> set (orderItems (fetchLastOrder suppress (Resolved code body) s)).
         itemStatus l = Some Removed \<longrightarrow>
           quantity l = 0 \<and>
           originalQuantity l =
             Some (sum_list (map qty0 (filter (\<lambda>r. pid_of r = Some (pid l) \<and> isCanceledRow r)
                     (case bill_items bill of None \<Rightarrow> [] | Some rs \<Rightarrow> rs))))))
   \<and> (findIndex (\<lambda>i. localId i = Some lid) (orderItems s) = Some idx \<and>
      target = orderItems s ! idx \<and>
      (itemStatus target = None \<or> itemStatus target = Some Original) \<and>
      truthy (existingBillId s) \<longrightarrow>
        (\<exists>r'. List.find (\<lambda>i. pid i = pid target \<and> itemStatus i = Some Removed)
                 (orderItems (handleDecrementQuantity now lid s)) = Some r'
           \<and> quantity r' =
               (case List.find (\<lambda>i. pid i = pid target \<and> itemStatus i = Some Removed) (orderItems s) of
                  Some r \<Rightarrow> quantity r | None \<Rightarrow> 0) + (quantity target - max 0 (quantity target - 1))
           \<and> originalQuantity r' =
               Some (case List.find (\<lambda>sub. pid sub = pid target) (originalSubmittedItems s) of
                       Some sub \<Rightarrow> quantity sub
                     | None \<Rightarrow> quantity target +
                         (case List.find (\<lambda>i. pid i = pid target \<and> itemStatus i = Some Removed) (orderItems s) of
                            Some r \<Rightarrow> quantity r | None \<Rightarrow> 0)))
        \<and> sum_list (map quantity (filter (\<lambda>i. pid i = pid target)
              (orderItems (handleDecrementQuantity now lid s)))) =
            sum_list (map quantity (filter (\<lambda>i. pid i = pid target) (orderItems s)))
        \<and> quantity target - max 0 (quantity target - 1) =
            (if 1 \<le> quantity target then 1 else quantity target))
   \<and> (\<forall>i \<in> set (orderItems (restoreRemoved item s)). localId i = localId item \<longrightarrow>
        itemStatus i = Some Original \<and> originalQuantity i = None \<and>
        quantity i = (case originalQuantity item of None \<Rightarrow> 1 | Some q \<Rightarrow> if q = 0 then 1 else q))
   \<and> getTotalOrderCost items = getTotalOrderCost (filter (\<lambda>i. itemStatus i \<noteq> Some Removed) items)"
proof (intro conjI impI ballI; (elim conjE)?)
  fix l
  assume "truthy (apiUrl s)" "tableNumber s = Some t" "t \<noteq> 0" "\<not> isLoadingIp s"
    "resp_status body = Some ''success''" "resp_data body = Some bill"
    "l \<in> set (orderItems (fetchLastOrder suppress (Resolved code body) s))"
    "itemStatus l = Some Removed"
  from synced_removed_line [OF this(1-6) refl this(7,8)]
  show "quantity l = 0"
    and "originalQuantity l =
             Some (sum_list (map qty0 (filter (\<lambda>r. pid_of r = Some (pid l) \<and> isCanceledRow r)
                     (case bill_items bill of None \<Rightarrow> [] | Some rs \<Rightarrow> rs))))"
    by simp_all
next
  assume a: "findIndex (\<lambda>i. localId i = Some lid) (orderItems s) = Some idx"
    "target = orderItems s ! idx"
    "itemStatus target = None \<or> itemStatus target = Some Original"
    "truthy (existingBillId s)"
  from decrement_removed_line [OF a, of now]
  show "\<exists>r'. List.find (\<lambda>i. pid i = pid target \<and> itemStatus i = Some Removed)
                 (orderItems (handleDecrementQuantity now lid s)) = Some r'
           \<and> quantity r' =
               (case List.find (\<lambda>i. pid i = pid target \<and> itemStatus i = Some Removed) (orderItems s) of
                  Some r \<Rightarrow> quantity r | None \<Rightarrow> 0) + (quantity target - max 0 (quantity target - 1))
           \<and> originalQuantity r' =
               Some (case List.find (\<lambda>sub. pid sub = pid target) (originalSubmittedItems s) of
                       Some sub \<Rightarrow> quantity sub
                     | None \<Rightarrow> quantity target +
                         (case List.find (\<lambda>i. pid i = pid target \<and> itemStatus i = Some Removed) (orderItems s) of
                            Some r \<Rightarrow> quantity r | None \<Rightarrow> 0))" .
  from decrement_moves_units [OF a, of now]
  show "sum_list (map quantity (filter (\<lambda>i. pid i = pid target)
              (orderItems (handleDecrementQuantity now lid s)))) =
            sum_list (map quantity (filter (\<lambda>i. pid i = pid target) (orderItems s)))" .
  show "quantity target - max 0 (quantity target - 1) =
            (if 1 \<le> quantity target then 1 else quantity target)"
    by simp
next
  fix i
  assume "i \<in> set (orderItems (restoreRemoved item s))" "localId i = localId item"
  from restoreRemoved_line [OF this]
  show "itemStatus i = Some Original" and "originalQuantity i = None"
    and "quantity i = (case originalQuantity item of None \<Rightarrow> 1 | Some q \<Rightarrow> if q = 0 then 1 else q)"
    by simp_all
next
  show "getTotalOrderCost items = getTotalOrderCost (filter (\<lambda>i. itemStatus i \<noteq> Some Removed) items)"
    by (rule getTotalOrderCost_skips_removed)
qed

theorem removed_lines_by_operation_witness:
  "quantity (last (orderItems (fetchLastOrder False
      (Resolved 200 \<lparr>resp_status = Some ''success'',
         resp_data = Some (demoBill ''pending''
           [demoRow ''i1'' 2 ''active'', demoRow ''i3'' 1 ''canceled'', demoRow ''i4'' 4 ''canceled''])\<rparr>)
      (demoScreen [demoOriginal 5, demoRemoved 0 2])))) = 0
   \<and> originalQuantity (last (orderItems (fetchLastOrder False
      (Resolved 200 \<lparr>resp_status = Some ''success'',
         resp_data = Some (demoBill ''pending''
           [demoRow ''i1'' 2 ''active'', demoRow ''i3'' 1 ''canceled'', demoRow ''i4'' 4 ''canceled''])\<rparr>)
      (demoScreen [demoOriginal 5, demoRemoved 0 2])))) = Some 5
   \<and> (\<exists>r'. List.find (\<lambda>i. pid i = ''P'' \<and> itemStatus i = Some Removed)
              (orderItems (handleDecrementQuantity ''1700000000000'' ''srv-P''
                 (demoScreen [demoOriginal 5, demoRemoved 0 2]))) = Some r'
          \<and> quantity r' = 1 \<and> originalQuantity r' = Some 5)
   \<and> sum_list (map quantity (filter (\<lambda>i. pid i = ''P'')
        (orderItems (handleDecrementQuantity ''1700000000000'' ''srv-P''
           (demoScreen [demoOriginal 5, demoRemoved 0 2]))))) = 5
   \<and> itemStatus (last (orderItems (restoreRemoved (demoRemoved 0 2)
        (demoScreen [demoOriginal 5, demoRemoved 0 2])))) = Some Original
   \<and> quantity (last (orderItems (restoreRemoved (demoRemoved 0 2)
        (demoScreen [demoOriginal 5, demoRemoved 0 2])))) = 2
   \<and> (\<exists>r'. List.find (\<lambda>i. pid i = ''P'' \<and> itemStatus i = Some Removed)
              (orderItems (handleDecrementQuantity ''1700000000000'' ''srv-P''
                 (demoScreen [demoOriginal 0]))) = Some r'
          \<and> quantity r' = 0 \<and> originalQuantity r' = Some 0)"
proof -
  let ?rows = "[demoRow ''i1'' 2 ''active'', demoRow ''i3'' 1 ''canceled'', demoRow ''i4'' 4 ''canceled'']"
  let ?bill = "demoBill ''pending'' ?rows"
  let ?body = "\<lparr>resp_status = Some ''success'', resp_data = Some ?bill\<rparr>"
  let ?s = "demoScreen [demoOriginal 5, demoRemoved 0 2]"
  let ?sync = "orderItems (fetchLastOrder False (Resolved 200 ?body) ?s)"
  let ?dec = "orderItems (handleDecrementQuantity ''1700000000000'' ''srv-P'' ?s)"
  let ?res = "orderItems (restoreRemoved (demoRemoved 0 2) ?s)"
  note th = removed_lines_by_operation [of ?s 4 ?body ?bill False 200 "''srv-P''" 0
      "demoOriginal 5" "''1700000000000''" "demoRemoved 0 2" "[]"]
  have items: "orderItems ?s = [demoOriginal 5, demoRemoved 0 2]"
    by (simp add: demoScreen_def)
  have subm: "originalSubmittedItems ?s = [demoOriginal 5]"
    by (simp add: demoScreen_def demoOriginal_def demoRemoved_def)
  have g: "truthy (apiUrl ?s)" "tableNumber ?s = Some 4" "(4::int) \<noteq> 0" "\<not> isLoadingIp ?s"
    "truthy (existingBillId ?s)"
    by (simp_all add: demoScreen_def truthy_def)
  have b: "resp_status ?body = Some ''success''" "resp_data ?body = Some ?bill"
    by simp_all
  have P: "pid (demoOriginal 5) = ''P''"
    by (simp add: demoOriginal_def demoProduct_def)
  \<comment> \<open>sync\<close>
  have m: "mappedItems ?bill =
      [\<lparr>product = protoProduct ''P'' (demoRow ''i1'' 2 ''active''), quantity = 2,
        itemStatus = Some Original, originalQuantity = Some 2,
        localId = Some ''srv-P'', serverItemIds = Some [''i1'']\<rparr>,
       \<lparr>product = protoProduct ''P'' (demoRow ''i3'' 1 ''canceled''), quantity = 0,
        itemStatus = Some Removed, originalQuantity = Some 5,
        localId = Some ''srv-removed-P'', serverItemIds = Some [''i3'', ''i4'']\<rparr>]"
    by (simp add: mappedItems_def demoBill_def itemsByProduct_def demoRow_def pid_of_def
        mapGroup_def isActiveRow_def isCanceledRow_def qty0_def rowIds_def truthy_def Let_def)
  have sync: "?sync = mappedItems ?bill"
    using g b by (simp add: fetchLastOrder_success [of ?s 4 ?body ?bill])
  have last_in: "last ?sync \<in> set ?sync" "itemStatus (last ?sync) = Some Removed"
    "pid (last ?sync) = ''P''"
    unfolding sync m by simp_all
  have csum: "sum_list (map qty0 (filter (\<lambda>r. pid_of r = Some ''P'' \<and> isCanceledRow r)
                (case bill_items ?bill of None \<Rightarrow> [] | Some rs \<Rightarrow> rs))) = 5"
    by (simp add: demoBill_def demoRow_def pid_of_def isCanceledRow_def qty0_def)
  from th g b have "\<forall>l \<in> set ?sync. itemStatus l = Some Removed \<longrightarrow>
           quantity l = 0 \<and>
           originalQuantity l =
             Some (sum_list (map qty0 (filter (\<lambda>r. pid_of r = Some (pid l) \<and> isCanceledRow r)
                     (case bill_items ?bill of None \<Rightarrow> [] | Some rs \<Rightarrow> rs))))"
    by blast
  with last_in csum have A: "quantity (last ?sync) = 0" "originalQuantity (last ?sync) = Some 5"
    by auto
  \<comment> \<open>decrement\<close>
  have idx: "findIndex (\<lambda>i. localId i = Some ''srv-P'') (orderItems ?s) = Some 0"
    "demoOriginal 5 = orderItems ?s ! 0"
    "itemStatus (demoOriginal 5) = None \<or> itemStatus (demoOriginal 5) = Some Original"
    unfolding items by (simp_all add: demoOriginal_def)
  have old: "List.find (\<lambda>i. pid i = ''P'' \<and> itemStatus i = Some Removed) (orderItems ?s)
      = Some (demoRemoved 0 2)"
    "List.find (\<lambda>sub. pid sub = ''P'') (originalSubmittedItems ?s) = Some (demoOriginal 5)"
    unfolding items subm by (simp_all add: demoOriginal_def demoRemoved_def demoProduct_def)
  have tot: "sum_list (map quantity (filter (\<lambda>i. pid i = ''P'') (orderItems ?s))) = 5"
    unfolding items by (simp add: demoOriginal_def demoRemoved_def demoProduct_def)
  from th idx g(5) have B: "(\<exists>r'. List.find (\<lambda>i. pid i = ''P'' \<and> itemStatus i = Some Removed) ?dec = Some r'
          \<and> quantity r' = 1 \<and> originalQuantity r' = Some 5)
      \<and> sum_list (map quantity (filter (\<lambda>i. pid i = ''P'') ?dec)) = 5"
    unfolding P old tot by (simp add: demoOriginal_def demoRemoved_def)
  \<comment> \<open>restore\<close>
  have res: "last ?res \<in> set ?res" "localId (last ?res) = localId (demoRemoved 0 2)"
    unfolding restoreRemoved_def items by (simp_all add: demoOriginal_def demoRemoved_def)
  from th res have D: "itemStatus (last ?res) = Some Original" "quantity (last ?res) = 2"
    by (auto simp: demoRemoved_def)
  \<comment> \<open>decrement of a line that stands at 0\<close>
  let ?z = "demoScreen [demoOriginal 0]"
  have zitems: "orderItems ?z = [demoOriginal 0]" "originalSubmittedItems ?z = [demoOriginal 0]"
    by (simp_all add: demoScreen_def demoOriginal_def)
  have zidx: "findIndex (\<lambda>i. localId i = Some ''srv-P'') (orderItems ?z) = Some 0"
    "demoOriginal 0 = orderItems ?z ! 0"
    "itemStatus (demoOriginal 0) = None \<or> itemStatus (demoOriginal 0) = Some Original"
    "truthy (existingBillId ?z)"
    unfolding zitems by (simp_all add: demoOriginal_def demoScreen_def truthy_def)
  have zP: "pid (demoOriginal 0) = ''P''"
    by (simp add: demoOriginal_def demoProduct_def)
  have zold: "List.find (\<lambda>i. pid i = ''P'' \<and> itemStatus i = Some Removed) (orderItems ?z) = None"
    "List.find (\<lambda>sub. pid sub = ''P'') (originalSubmittedItems ?z) = Some (demoOriginal 0)"
    unfolding zitems by (simp_all add: demoOriginal_def demoProduct_def)
  from removed_lines_by_operation [of ?z 4 ?body ?bill False 200 "''srv-P''" 0
      "demoOriginal 0" "''1700000000000''" "demoRemoved 0 2" "[]"] zidx
  have Z: "\<exists>r'. List.find (\<lambda>i. pid i = ''P'' \<and> itemStatus i = Some Removed)
              (orderItems (handleDecrementQuantity ''1700000000000'' ''srv-P'' ?z)) = Some r'
          \<and> quantity r' = 0 \<and> originalQuantity r' = Some 0"
    unfolding zP zold by (simp add: demoOriginal_def)
  from A B D Z show ?thesis by blast
qed

section \<open>Totals and taxes\<close>

lemma fl_zero [simp]: "fl 0 = 0"
  by (simp add: fl_def)

text \<open>The rounding on known values: 0.1, a tie that goes to the even neighbour, and 199.99.\<close>

lemma fl_examples:
  "fl (1 / 10) = 3602879701896397 / 36028797018963968"
  "fl 9007199254740993 = 9007199254740992"
  "fl 9007199254740995 = 9007199254740996"
  "fl (19999 / 100) = 879565321755689 / 4398046511104"
  by code_simp+




section \<open>Update KOT: failure\<close>

lemma errorMessage_nonempty: "errorMessage srv msg \<noteq> []"
  by (cases srv) (auto simp: errorMessage_def truthy_def)

text \<open>
  C9. When \<open>updateKOT\<close> has passed its guards and one of its server calls before the
  local update is rejected (no response, or a status outside 2xx), for the refetch of
  the bill or for the \<open>PUT\<close>, the handler raises one alert titled "Failed to update KOT"
  with a non-empty message, and the screen state is the one before the call with
  \<open>loading\<close> off: \<open>orderItems\<close>, \<open>originalSubmittedItems\<close>, \<open>hasPendingChanges\<close>,
  \<open>existingBillId\<close> and \<open>billNumber\<close> keep their values.
\<close>

theorem updateKOT_failure_keeps_state:
  assumes guards: "\<not> isLoadingIp s" "truthy (apiUrl s)" "tableNumber s = Some t" "t \<noteq> 0"
      "truthy (existingBillId s)"
    and rejected: "(\<exists>c m e. billResponse = Rejected c m e) \<or> (\<exists>c m e. putResponse = Rejected c m e)"
  shows "screen (updateKOT suppress typeErrorText billResponse putResponse refetch s) = s\<lparr>loading := False\<rparr>
    \<and> orderItems (screen (updateKOT suppress typeErrorText billResponse putResponse refetch s)) = orderItems s
    \<and> originalSubmittedItems (screen (updateKOT suppress typeErrorText billResponse putResponse refetch s))
        = originalSubmittedItems s
    \<and> hasPendingChanges (screen (updateKOT suppress typeErrorText billResponse putResponse refetch s))
        = hasPendingChanges s
    \<and> existingBillId (screen (updateKOT suppress typeErrorText billResponse putResponse refetch s))
        = existingBillId s
    \<and> billNumber (screen (updateKOT suppress typeErrorText billResponse putResponse refetch s)) = billNumber s
    \<and> (\<exists>msg. alerts (updateKOT suppress typeErrorText billResponse putResponse refetch s)
              = [(''Failed to update KOT'', msg)] \<and> msg \<noteq> [])"
proof -
  let ?out = "updateKOT suppress typeErrorText billResponse putResponse refetch s"
  have "\<exists>shown req. shown \<noteq> [] \<and> ?out =
      \<lparr>screen = s\<lparr>loading := False\<rparr>,
       alerts = [(''Failed to update KOT'', shown)], request = req\<rparr>"
  proof (cases billResponse)
    case (Rejected c m e)
    with guards show ?thesis
      by (simp add: updateKOT_def errorMessage_nonempty)
  next
    case (Resolved c body)
    with rejected obtain c' m' e' where put: "putResponse = Rejected c' m' e'" by auto
    show ?thesis
    proof (cases "if resp_status body = Some ''success'' then resp_data body else None")
      case None
      with guards Resolved show ?thesis
        by (simp add: updateKOT_def errorMessage_nonempty)
    next
      case (Some currentBill)
      with guards Resolved put show ?thesis
        by (cases "bill_items currentBill") (simp_all add: updateKOT_def Let_def errorMessage_nonempty)
    qed
  qed
  then obtain shown req where out: "shown \<noteq> []" "?out =
      \<lparr>screen = s\<lparr>loading := False\<rparr>,
       alerts = [(''Failed to update KOT'', shown)], request = req\<rparr>"
    by blast
  show ?thesis
    unfolding out(2) using out(1) by simp
qed

theorem updateKOT_failure_keeps_state_witness:
  "screen (updateKOT False ''undefined is not an object''
      (Resolved 200 \<lparr>resp_status = Some ''success'',
         resp_data = Some (demoBill ''pending'' [demoRow ''i1'' 5 ''active''])\<rparr>)
      (Rejected (Some 500) (Some ''Bill not found'') ''Request failed with status code 500'')
      (Rejected None None ''Network Error'')
      (demoScreen [demoOriginal 4, demoRemoved 1 5]))
     = (demoScreen [demoOriginal 4, demoRemoved 1 5])\<lparr>loading := False\<rparr>
   \<and> alerts (updateKOT False ''undefined is not an object''
      (Resolved 200 \<lparr>resp_status = Some ''success'',
         resp_data = Some (demoBill ''pending'' [demoRow ''i1'' 5 ''active''])\<rparr>)
      (Rejected (Some 500) (Some ''Bill not found'') ''Request failed with status code 500'')
      (Rejected None None ''Network Error'')
      (demoScreen [demoOriginal 4, demoRemoved 1 5]))
     = [(''Failed to update KOT'', ''Bill not found'')]"
proof -
  let ?s = "demoScreen [demoOriginal 4, demoRemoved 1 5]"
  let ?b = "Resolved 200 \<lparr>resp_status = Some ''success'',
         resp_data = Some (demoBill ''pending'' [demoRow ''i1'' 5 ''active''])\<rparr>"
  let ?p = "Rejected (Some 500) (Some ''Bill not found'') ''Request failed with status code 500'' :: unit Response"
  let ?out = "updateKOT False ''undefined is not an object'' ?b ?p (Rejected None None ''Network Error'') ?s"
  have g: "\<not> isLoadingIp ?s" "truthy (apiUrl ?s)" "tableNumber ?s = Some 4" "(4::int) \<noteq> 0"
    "truthy (existingBillId ?s)"
    by (simp_all add: demoScreen_def truthy_def)
  have r: "(\<exists>c m e. ?b = Rejected c m e) \<or> (\<exists>c m e. ?p = Rejected c m e)"
    by simp
  have a: "alerts ?out = [(''Failed to update KOT'', ''Bill not found'')]"
    using g by (simp add: updateKOT_def demoBill_def errorMessage_def truthy_def Let_def)
  from updateKOT_failure_keeps_state [OF g r, of False "''undefined is not an object''"
      "Rejected None None ''Network Error''"] a
  show ?thesis by blast
qed

section \<open>Update KOT: the diff\<close>

text \<open>The loop over the rows of one product appends the edits the specification describes.\<close>

lemma distribute_assignments:
  "distribute desired rows edited =
     edited @
     map (\<lambda>(r, a). \<lparr>itemId = item_id r, newQuantity = a,
                     changeType = (if a = 0 then Canceled else Edit)\<rparr>)
       (filter (\<lambda>(r, a). a \<noteq> qty0 r) (assignments desired rows))"
proof (induction rows arbitrary: desired edited)
  case Nil
  show ?case by simp
next
  case (Cons r rows)
  have clamp: "max 0 (desired - min (qty0 r) desired) = desired - min (qty0 r) desired"
    by simp
  show ?case
    by (simp add: Let_def clamp Cons.IH del: max.absorb1 max.absorb2 max.absorb3 max.absorb4)
qed

lemma distribute_append:
  "distribute desired rows edited = edited @ distribute desired rows []"
  by (simp add: distribute_assignments)

lemma editedItems_from:
  "foldl (\<lambda>edited entry.
        case desiredMap (fst entry) of
          None \<Rightarrow> edited
        | Some desired \<Rightarrow> distribute desired (activeServerItems (snd entry)) edited) acc groups =
   acc @ concat (map (\<lambda>entry.
        case desiredMap (fst entry) of
          None \<Rightarrow> []
        | Some desired \<Rightarrow> distribute desired (activeServerItems (snd entry)) []) groups)"
proof (induction groups arbitrary: acc)
  case Nil
  show ?case by simp
next
  case (Cons entry groups)
  show ?case
  proof (cases "desiredMap (fst entry)")
    case None
    then show ?thesis by (simp add: Cons.IH)
  next
    case (Some d)
    have "distribute d (activeServerItems (snd entry)) acc =
        acc @ distribute d (activeServerItems (snd entry)) []"
      by (rule distribute_append)
    with Some show ?thesis by (simp add: Cons.IH)
  qed
qed

lemma editedItems_concat:
  "editedItems desiredMap groups =
     concat (map (\<lambda>entry.
        case desiredMap (fst entry) of
          None \<Rightarrow> []
        | Some desired \<Rightarrow> distribute desired (activeServerItems (snd entry)) []) groups)"
  unfolding editedItems_def editedItems_from by simp

lemma distribute_planned:
  "map (\<lambda>e. (itemId e, newQuantity e)) (distribute desired rows []) = plannedEdits desired rows"
  by (simp add: distribute_assignments plannedEdits_def split_def comp_def)

lemma distribute_changeType:
  "e \<in> set (distribute desired rows []) \<Longrightarrow>
     (0 < newQuantity e \<longrightarrow> changeType e = Edit) \<and> (newQuantity e = 0 \<longrightarrow> changeType e = Canceled)"
  by (auto simp: distribute_assignments)

lemma active_of_entry:
  assumes "entry \<in> set (itemsByProduct rows)"
  shows "activeServerItems (snd entry) =
     filter (\<lambda>r. pid_of r = Some (fst entry) \<and> item_status r \<noteq> Some ''canceled'') rows"
  unfolding itemsByProduct_entry [OF assms] activeServerItems_def by simp

text \<open>
  C4. The edits of the Update KOT request are, product by product in the order in which
  the products first occur in the server's item array, and row by row in array order
  among the rows of the product that are not canceled, exactly the rows whose assignment
  differs from their quantity, each with its id and its assignment as the new quantity;
  the assignment of a row is the minimum of its quantity and the desired quantity that
  remains, which then decreases by the assignment. Products without a desired quantity
  give no edit. An edit with a positive new quantity has change type \<open>edit\<close>, one with
  new quantity 0 has \<open>canceled\<close>. Every product of the item array is visited once.
\<close>

theorem updateKOT_distribution:
  "map (\<lambda>e. (itemId e, newQuantity e)) (upd_edited (updateData s currentBill rows)) =
     concat (map (\<lambda>entry.
        case desiredByProduct (orderItems s) (originalSubmittedItems s) (fst entry) of
          None \<Rightarrow> []
        | Some desired \<Rightarrow>
            plannedEdits desired
              (filter (\<lambda>r. pid_of r = Some (fst entry) \<and> item_status r \<noteq> Some ''canceled'') rows))
       (itemsByProduct rows))
   \<and> (\<forall>e \<in> set (upd_edited (updateData s currentBill rows)).
        (0 < newQuantity e \<longrightarrow> changeType e = Edit) \<and> (newQuantity e = 0 \<longrightarrow> changeType e = Canceled))
   \<and> distinct (map fst (itemsByProduct rows))
   \<and> fst ` set (itemsByProduct rows) = {k. \<exists>r \<in> set rows. pid_of r = Some k}"
proof (intro conjI ballI)
  let ?dm = "desiredByProduct (orderItems s) (originalSubmittedItems s)"
  have e: "upd_edited (updateData s currentBill rows) = editedItems ?dm (itemsByProduct rows)"
    by (simp add: updateData_def Let_def)
  have "map (\<lambda>e. (itemId e, newQuantity e)) (editedItems ?dm (itemsByProduct rows)) =
      concat (map (\<lambda>entry. case ?dm (fst entry) of None \<Rightarrow> []
        | Some desired \<Rightarrow> plannedEdits desired (activeServerItems (snd entry))) (itemsByProduct rows))"
    unfolding editedItems_concat map_concat map_map
    by (intro arg_cong [where f = concat] map_cong refl)
       (simp add: distribute_planned split: option.splits)
  also have "\<dots> = concat (map (\<lambda>entry. case ?dm (fst entry) of None \<Rightarrow> []
        | Some desired \<Rightarrow> plannedEdits desired
            (filter (\<lambda>r. pid_of r = Some (fst entry) \<and> item_status r \<noteq> Some ''canceled'') rows))
       (itemsByProduct rows))"
    by (intro arg_cong [where f = concat] map_cong refl)
       (simp add: active_of_entry split: option.splits)
  finally show "map (\<lambda>e. (itemId e, newQuantity e)) (upd_edited (updateData s currentBill rows)) =
     concat (map (\<lambda>entry. case ?dm (fst entry) of None \<Rightarrow> []
        | Some desired \<Rightarrow> plannedEdits desired
            (filter (\<lambda>r. pid_of r = Some (fst entry) \<and> item_status r \<noteq> Some ''canceled'') rows))
       (itemsByProduct rows))"
    unfolding e .
next
  fix e
  assume "e \<in> set (upd_edited (updateData s currentBill rows))"
  then have "e \<in> set (editedItems (desiredByProduct (orderItems s) (originalSubmittedItems s))
                        (itemsByProduct rows))"
    by (simp add: updateData_def Let_def)
  then obtain entry d where "e \<in> set (distribute d (activeServerItems (snd entry)) [])"
    unfolding editedItems_concat by (auto split: option.splits)
  then have "(0 < newQuantity e \<longrightarrow> changeType e = Edit) \<and> (newQuantity e = 0 \<longrightarrow> changeType e = Canceled)"
    by (rule distribute_changeType)
  then show "0 < newQuantity e \<longrightarrow> changeType e = Edit" and "newQuantity e = 0 \<longrightarrow> changeType e = Canceled"
    by blast+
next
  show "distinct (map fst (itemsByProduct rows))"
    by (rule itemsByProduct_distinct)
next
  show "fst ` set (itemsByProduct rows) = {k. \<exists>r \<in> set rows. pid_of r = Some k}"
    by (rule itemsByProduct_keys)
qed

lemma demo_desired:
  "desiredByProduct [demoOriginal q] [demoOriginal 5] = [''P'' \<mapsto> q]"
  by (simp add: desiredByProduct_def demoOriginal_def demoProduct_def)

lemma demo_groups:
  "itemsByProduct [demoRow ''i1'' 2 ''active'', demoRow ''i2'' 3 ''active'', demoRow ''i3'' 1 ''canceled''] =
     [(''P'', [demoRow ''i1'' 2 ''active'', demoRow ''i2'' 3 ''active'', demoRow ''i3'' 1 ''canceled''])]"
  by (simp add: itemsByProduct_def demoRow_def pid_of_def)

theorem updateKOT_distribution_witness:
  "map (\<lambda>e. (itemId e, newQuantity e))
     (upd_edited (updateData ((demoScreen [demoOriginal 5])\<lparr>orderItems := [demoOriginal 2]\<rparr>)
        (demoBill ''pending'' [])
        [demoRow ''i1'' 2 ''active'', demoRow ''i2'' 3 ''active'', demoRow ''i3'' 1 ''canceled'']))
     = [(Some ''i2'', 0)]
   \<and> map changeType
     (upd_edited (updateData ((demoScreen [demoOriginal 5])\<lparr>orderItems := [demoOriginal 2]\<rparr>)
        (demoBill ''pending'' [])
        [demoRow ''i1'' 2 ''active'', demoRow ''i2'' 3 ''active'', demoRow ''i3'' 1 ''canceled'']))
     = [Canceled]"
proof -
  let ?s = "(demoScreen [demoOriginal 5])\<lparr>orderItems := [demoOriginal 2]\<rparr>"
  let ?rows = "[demoRow ''i1'' 2 ''active'', demoRow ''i2'' 3 ''active'', demoRow ''i3'' 1 ''canceled'']"
  let ?edits = "upd_edited (updateData ?s (demoBill ''pending'' []) ?rows)"
  have st: "orderItems ?s = [demoOriginal 2]" "originalSubmittedItems ?s = [demoOriginal 5]"
    by (simp_all add: demoScreen_def demoOriginal_def)
  have act: "filter (\<lambda>r. pid_of r = Some ''P'' \<and> item_status r \<noteq> Some ''canceled'') ?rows =
      [demoRow ''i1'' 2 ''active'', demoRow ''i2'' 3 ''active'']"
    by (simp add: demoRow_def pid_of_def)
  have pl: "plannedEdits 2 [demoRow ''i1'' 2 ''active'', demoRow ''i2'' 3 ''active''] = [(Some ''i2'', 0)]"
    by (simp add: plannedEdits_def demoRow_def qty0_def Let_def)
  note th = updateKOT_distribution [of ?s "demoBill ''pending'' []" ?rows]
  from th have "map (\<lambda>e. (itemId e, newQuantity e)) ?edits =
      concat (map (\<lambda>entry.
        case desiredByProduct (orderItems ?s) (originalSubmittedItems ?s) (fst entry) of
          None \<Rightarrow> []
        | Some desired \<Rightarrow>
            plannedEdits desired
              (filter (\<lambda>r. pid_of r = Some (fst entry) \<and> item_status r \<noteq> Some ''canceled'') ?rows))
       (itemsByProduct ?rows))"
    by blast
  also have "\<dots> = plannedEdits 2 (filter (\<lambda>r. pid_of r = Some ''P'' \<and> item_status r \<noteq> Some ''canceled'') ?rows)"
    unfolding st demo_desired demo_groups by (simp del: filter.simps)
  also have "\<dots> = [(Some ''i2'', 0)]"
    unfolding act pl ..
  finally have pairs: "map (\<lambda>e. (itemId e, newQuantity e)) ?edits = [(Some ''i2'', 0)]" .
  then obtain e where e: "?edits = [e]" "newQuantity e = 0"
    by auto
  from th have "\<forall>e \<in> set ?edits. newQuantity e = 0 \<longrightarrow> changeType e = Canceled"
    by blast
  with e have "map changeType ?edits = [Canceled]"
    by simp
  with pairs show ?thesis by blast
qed

section \<open>Update KOT: no pending change\<close>

lemma sum_qty0_nonneg: "(\<forall>r \<in> set rows. 0 \<le> qty0 r) \<Longrightarrow> 0 \<le> sum_list (map qty0 rows)"
  by (induction rows) auto

lemma assignments_no_edit:
  "(\<forall>r \<in> set rows. 0 \<le> qty0 r) \<Longrightarrow> sum_list (map qty0 rows) \<le> desired \<Longrightarrow>
   filter (\<lambda>(r, a). a \<noteq> qty0 r) (assignments desired rows) = []"
proof (induction rows arbitrary: desired)
  case Nil
  show ?case by simp
next
  case (Cons r rows)
  from Cons.prems have nn: "0 \<le> sum_list (map qty0 rows)"
    by (intro sum_qty0_nonneg) simp
  with Cons.prems have m: "min (qty0 r) desired = qty0 r"
    by simp
  from Cons.prems have "sum_list (map qty0 rows) \<le> desired - qty0 r"
    by simp
  with Cons.IH [of "desired - qty0 r"] Cons.prems show ?case
    by (simp add: m Let_def)
qed

lemma distribute_no_edit:
  "(\<forall>r \<in> set rows. 0 \<le> qty0 r) \<Longrightarrow> sum_list (map qty0 rows) \<le> desired \<Longrightarrow>
   distribute desired rows [] = []"
  by (simp add: distribute_assignments assignments_no_edit)

text \<open>No edit arises when the desired quantities match the rows that are not canceled.\<close>

lemma editedItems_matching:
  assumes nonneg: "\<forall>r \<in> set rows. item_status r \<noteq> Some ''canceled'' \<longrightarrow> 0 \<le> qty0 r"
    and same: "\<forall>k d. (\<exists>r \<in> set rows. pid_of r = Some k) \<and> desiredMap k = Some d \<longrightarrow>
             d = sum_list (map qty0
                   (filter (\<lambda>r. pid_of r = Some k \<and> item_status r \<noteq> Some ''canceled'') rows))"
  shows "editedItems desiredMap (itemsByProduct rows) = []"
proof -
  have "(case desiredMap (fst entry) of None \<Rightarrow> []
         | Some desired \<Rightarrow> distribute desired (activeServerItems (snd entry)) []) = []"
    if entry: "entry \<in> set (itemsByProduct rows)" for entry
  proof (cases "desiredMap (fst entry)")
    case None
    then show ?thesis by simp
  next
    case (Some d)
    let ?act = "filter (\<lambda>r. pid_of r = Some (fst entry) \<and> item_status r \<noteq> Some ''canceled'') rows"
    from entry have "fst entry \<in> fst ` set (itemsByProduct rows)" by (rule imageI)
    then have "\<exists>r \<in> set rows. pid_of r = Some (fst entry)"
      unfolding itemsByProduct_keys by simp
    with same Some have "d = sum_list (map qty0 ?act)" by blast
    moreover from nonneg have "\<forall>r \<in> set ?act. 0 \<le> qty0 r" by simp
    ultimately have "distribute d ?act [] = []"
      by (intro distribute_no_edit) simp_all
    with Some show ?thesis
      unfolding active_of_entry [OF entry] by simp
  qed
  then show ?thesis
    unfolding editedItems_concat by simp
qed

lemma distribute_empty_iff:
  "distribute desired rows [] = [] \<longleftrightarrow> plannedEdits desired rows = []"
  unfolding distribute_planned [symmetric] by simp

lemma upd_edited_nonempty_iff:
  "upd_edited (updateData s currentBill rows) \<noteq> [] \<longleftrightarrow>
     (\<exists>entry \<in> set (itemsByProduct rows). \<exists>d.
        desiredByProduct (orderItems s) (originalSubmittedItems s) (fst entry) = Some d \<and>
        plannedEdits d
          (filter (\<lambda>r. pid_of r = Some (fst entry) \<and> item_status r \<noteq> Some ''canceled'') rows) \<noteq> [])"
proof -
  let ?dm = "desiredByProduct (orderItems s) (originalSubmittedItems s)"
  have "upd_edited (updateData s currentBill rows) \<noteq> [] \<longleftrightarrow>
      (\<exists>entry \<in> set (itemsByProduct rows).
         (case ?dm (fst entry) of None \<Rightarrow> []
          | Some d \<Rightarrow> distribute d (activeServerItems (snd entry)) []) \<noteq> [])"
    by (simp add: updateData_def Let_def editedItems_concat)
  also have "\<dots> \<longleftrightarrow>
      (\<exists>entry \<in> set (itemsByProduct rows). \<exists>d. ?dm (fst entry) = Some d \<and>
         plannedEdits d
           (filter (\<lambda>r. pid_of r = Some (fst entry) \<and> item_status r \<noteq> Some ''canceled'') rows) \<noteq> [])"
    by (intro bex_cong refl)
       (auto simp: active_of_entry distribute_empty_iff split: option.splits)
  finally show ?thesis .
qed

lemma upd_added_eq:
  "upd_added (updateData s currentBill rows) =
     map (\<lambda>item. \<lparr>add_productId = pid item, add_name = product_name (product item),
                   add_quantity = quantity item, add_price = unitPrice item\<rparr>)
       (filter (\<lambda>item. itemStatus item = Some Addon \<and> 0 < quantity item) (orderItems s))"
  by (simp add: updateData_def Let_def addedItems_def)

text \<open>
  C5. As stated the claim fails: the bill \<open>b1\<close> is already \<open>bill-printed\<close> when it is
  refetched, the draft asks for 2 of the 5 units of its row \<open>i1\<close>, and the request
  carries the edit of \<open>i1\<close> to 2 together with the status \<open>bill-printed\<close>. The status is
  \<open>bill-printed\<close> although the diff is not empty.
\<close>

theorem updateKOT_status_counterexample:
  "upd_status (updateData ((demoScreen [demoOriginal 5])\<lparr>orderItems := [demoOriginal 2]\<rparr>)
      (demoBill ''bill-printed'' [demoRow ''i1'' 5 ''active'']) [demoRow ''i1'' 5 ''active''])
     = Some ''bill-printed''
   \<and> upd_edited (updateData ((demoScreen [demoOriginal 5])\<lparr>orderItems := [demoOriginal 2]\<rparr>)
      (demoBill ''bill-printed'' [demoRow ''i1'' 5 ''active'']) [demoRow ''i1'' 5 ''active''])
     = [\<lparr>itemId = Some ''i1'', newQuantity = 2, changeType = Edit\<rparr>]"
proof -
  let ?s = "(demoScreen [demoOriginal 5])\<lparr>orderItems := [demoOriginal 2]\<rparr>"
  have st: "orderItems ?s = [demoOriginal 2]" "originalSubmittedItems ?s = [demoOriginal 5]"
    by (simp_all add: demoScreen_def demoOriginal_def)
  have g: "itemsByProduct [demoRow ''i1'' 5 ''active''] = [(''P'', [demoRow ''i1'' 5 ''active''])]"
    by (simp add: itemsByProduct_def demoRow_def pid_of_def)
  have e: "editedItems [''P'' \<mapsto> 2] [(''P'', [demoRow ''i1'' 5 ''active''])] =
      [\<lparr>itemId = Some ''i1'', newQuantity = 2, changeType = Edit\<rparr>]"
    by (simp add: editedItems_def activeServerItems_def demoRow_def qty0_def Let_def)
  have a: "addedItems [demoOriginal 2] = []"
    by (simp add: addedItems_def demoOriginal_def)
  show ?thesis
    unfolding updateData_def Let_def st demo_desired g e a
    by (simp add: demoBill_def)
qed

text \<open>
  C5, amended. The request's status is \<open>bill-printed\<close> whenever the diff has no edited
  and no added item; whenever the diff has an edited or an added item the status of the
  refetched bill is carried over unchanged. So the request says \<open>bill-printed\<close> exactly
  when the diff is empty or the refetched bill is itself \<open>bill-printed\<close>. The added
  items are the addon lines of the draft with a positive quantity, and the diff has an
  edited item exactly when some product of the bill has a desired quantity whose
  distribution over its rows that are not canceled differs from a row's quantity. When
  the rows of the bill that are not canceled have quantities of at least 0, the desired
  quantity of every product of the bill that has one equals the summed quantity of its
  rows that are not canceled, and no addon line has a positive quantity, the diff has
  no edited and no added item.
\<close>

theorem updateKOT_status_rule:
  "(upd_edited (updateData s currentBill rows) = [] \<and> upd_added (updateData s currentBill rows) = [] \<longrightarrow>
      upd_status (updateData s currentBill rows) = Some ''bill-printed'')
   \<and> (upd_edited (updateData s currentBill rows) \<noteq> [] \<or> upd_added (updateData s currentBill rows) \<noteq> [] \<longrightarrow>
      upd_status (updateData s currentBill rows) = bill_status currentBill)
   \<and> (upd_status (updateData s currentBill rows) = Some ''bill-printed'' \<longleftrightarrow>
        bill_status currentBill = Some ''bill-printed'' \<or>
        upd_edited (updateData s currentBill rows) = [] \<and> upd_added (updateData s currentBill rows) = [])
   \<and> upd_added (updateData s currentBill rows) =
        map (\<lambda>item. \<lparr>add_productId = pid item, add_name = product_name (product item),
                      add_quantity = quantity item, add_price = unitPrice item\<rparr>)
          (filter (\<lambda>item. itemStatus item = Some Addon \<and> 0 < quantity item) (orderItems s))
   \<and> (upd_added (updateData s currentBill rows) \<noteq> [] \<longleftrightarrow>
        (\<exists>i \<in> set (orderItems s). itemStatus i = Some Addon \<and> 0 < quantity i))
   \<and> (upd_edited (updateData s currentBill rows) \<noteq> [] \<longleftrightarrow>
        (\<exists>entry \<in> set (itemsByProduct rows). \<exists>d.
           desiredByProduct (orderItems s) (originalSubmittedItems s) (fst entry) = Some d \<and>
           plannedEdits d
             (filter (\<lambda>r. pid_of r = Some (fst entry) \<and> item_status r \<noteq> Some ''canceled'') rows) \<noteq> []))
   \<and> ((\<forall>r \<in> set rows. item_status r \<noteq> Some ''canceled'' \<longrightarrow> 0 \<le> qty0 r) \<and>
      (\<forall>k d. (\<exists>r \<in> set rows. pid_of r = Some k) \<and>
             desiredByProduct (orderItems s) (originalSubmittedItems s) k = Some d \<longrightarrow>
             d = sum_list (map qty0
                   (filter (\<lambda>r. pid_of r = Some k \<and> item_status r \<noteq> Some ''canceled'') rows))) \<and>
      (\<forall>i \<in> set (orderItems s). itemStatus i = Some Addon \<longrightarrow> quantity i \<le> 0) \<longrightarrow>
        upd_edited (updateData s currentBill rows) = [] \<and>
        upd_added (updateData s currentBill rows) = [] \<and>
        upd_status (updateData s currentBill rows) = Some ''bill-printed'')"
proof -
  let ?U = "updateData s currentBill rows"
  have st: "upd_status ?U =
     (if upd_edited ?U = [] \<and> upd_added ?U = [] then Some ''bill-printed'' else bill_status currentBill)"
    by (simp add: updateData_def Let_def)
  have c1: "upd_edited ?U = [] \<and> upd_added ?U = [] \<longrightarrow> upd_status ?U = Some ''bill-printed''"
    using st by simp
  have c2: "upd_edited ?U \<noteq> [] \<or> upd_added ?U \<noteq> [] \<longrightarrow> upd_status ?U = bill_status currentBill"
    using st by auto
  have c3: "upd_status ?U = Some ''bill-printed'' \<longleftrightarrow>
        bill_status currentBill = Some ''bill-printed'' \<or> upd_edited ?U = [] \<and> upd_added ?U = []"
    using st by auto
  note c4 = upd_added_eq [of s currentBill rows]
  have c5: "upd_added ?U \<noteq> [] \<longleftrightarrow> (\<exists>i \<in> set (orderItems s). itemStatus i = Some Addon \<and> 0 < quantity i)"
    unfolding c4 by (auto simp: filter_empty_conv)
  note c6 = upd_edited_nonempty_iff [of s currentBill rows]
  have c7: "upd_edited ?U = [] \<and> upd_added ?U = [] \<and> upd_status ?U = Some ''bill-printed''"
    if nonneg: "\<forall>r \<in> set rows. item_status r \<noteq> Some ''canceled'' \<longrightarrow> 0 \<le> qty0 r"
      and same: "\<forall>k d. (\<exists>r \<in> set rows. pid_of r = Some k) \<and>
             desiredByProduct (orderItems s) (originalSubmittedItems s) k = Some d \<longrightarrow>
             d = sum_list (map qty0
                   (filter (\<lambda>r. pid_of r = Some k \<and> item_status r \<noteq> Some ''canceled'') rows))"
      and noaddon: "\<forall>i \<in> set (orderItems s). itemStatus i = Some Addon \<longrightarrow> quantity i \<le> 0"
  proof -
    from nonneg same
    have "editedItems (desiredByProduct (orderItems s) (originalSubmittedItems s)) (itemsByProduct rows) = []"
      by (rule editedItems_matching)
    then have ed: "upd_edited ?U = []"
      by (simp add: updateData_def Let_def)
    from noaddon have ad: "upd_added ?U = []"
      unfolding c4 by (auto simp: filter_empty_conv)
    from st ed ad show ?thesis by simp
  qed
  from c1 c2 c3 c4 c5 c6 c7 show ?thesis by blast
qed

theorem updateKOT_status_rule_witness:
  "upd_edited (updateData (demoScreen [demoOriginal 5]) (demoBill ''pending''
        [demoRow ''i1'' 2 ''active'', demoRow ''i2'' 3 ''active'', demoRow ''i3'' 1 ''canceled''])
      [demoRow ''i1'' 2 ''active'', demoRow ''i2'' 3 ''active'', demoRow ''i3'' 1 ''canceled'']) = []
   \<and> upd_added (updateData (demoScreen [demoOriginal 5]) (demoBill ''pending''
        [demoRow ''i1'' 2 ''active'', demoRow ''i2'' 3 ''active'', demoRow ''i3'' 1 ''canceled''])
      [demoRow ''i1'' 2 ''active'', demoRow ''i2'' 3 ''active'', demoRow ''i3'' 1 ''canceled'']) = []
   \<and> upd_status (updateData (demoScreen [demoOriginal 5]) (demoBill ''pending''
        [demoRow ''i1'' 2 ''active'', demoRow ''i2'' 3 ''active'', demoRow ''i3'' 1 ''canceled''])
      [demoRow ''i1'' 2 ''active'', demoRow ''i2'' 3 ''active'', demoRow ''i3'' 1 ''canceled''])
       = Some ''bill-printed''
   \<and> upd_edited (updateData ((demoScreen [demoOriginal 5])\<lparr>orderItems := [demoOriginal 2]\<rparr>)
      (demoBill ''pending''
        [demoRow ''i1'' 2 ''active'', demoRow ''i2'' 3 ''active'', demoRow ''i3'' 1 ''canceled''])
      [demoRow ''i1'' 2 ''active'', demoRow ''i2'' 3 ''active'', demoRow ''i3'' 1 ''canceled'']) \<noteq> []
   \<and> upd_status (updateData ((demoScreen [demoOriginal 5])\<lparr>orderItems := [demoOriginal 2]\<rparr>)
      (demoBill ''pending''
        [demoRow ''i1'' 2 ''active'', demoRow ''i2'' 3 ''active'', demoRow ''i3'' 1 ''canceled''])
      [demoRow ''i1'' 2 ''active'', demoRow ''i2'' 3 ''active'', demoRow ''i3'' 1 ''canceled''])
       = Some ''pending''
   \<and> upd_added (updateData
        ((demoScreen [demoOriginal 5])\<lparr>orderItems := [demoOriginal 5, newAddonEntry demoProduct]\<rparr>)
        (demoBill ''ready''
          [demoRow ''i1'' 2 ''active'', demoRow ''i2'' 3 ''active'', demoRow ''i3'' 1 ''canceled''])
        [demoRow ''i1'' 2 ''active'', demoRow ''i2'' 3 ''active'', demoRow ''i3'' 1 ''canceled''])
       = [\<lparr>add_productId = ''P'', add_name = ''Tea'', add_quantity = 1, add_price = 50\<rparr>]
   \<and> upd_status (updateData
        ((demoScreen [demoOriginal 5])\<lparr>orderItems := [demoOriginal 5, newAddonEntry demoProduct]\<rparr>)
        (demoBill ''ready''
          [demoRow ''i1'' 2 ''active'', demoRow ''i2'' 3 ''active'', demoRow ''i3'' 1 ''canceled''])
        [demoRow ''i1'' 2 ''active'', demoRow ''i2'' 3 ''active'', demoRow ''i3'' 1 ''canceled''])
       = Some ''ready''"
proof -
  let ?rows = "[demoRow ''i1'' 2 ''active'', demoRow ''i2'' 3 ''active'', demoRow ''i3'' 1 ''canceled'']"
  \<comment> \<open>nothing changed\<close>
  let ?s = "demoScreen [demoOriginal 5]"
  have st: "orderItems ?s = [demoOriginal 5]" "originalSubmittedItems ?s = [demoOriginal 5]"
    by (simp_all add: demoScreen_def demoOriginal_def)
  have h1: "\<forall>r \<in> set ?rows. item_status r \<noteq> Some ''canceled'' \<longrightarrow> 0 \<le> qty0 r"
    by (simp add: demoRow_def qty0_def)
  have act: "sum_list (map qty0
       (filter (\<lambda>r. pid_of r = Some ''P'' \<and> item_status r \<noteq> Some ''canceled'') ?rows)) = 5"
    by (simp add: demoRow_def pid_of_def qty0_def)
  have h2: "\<forall>k d. (\<exists>r \<in> set ?rows. pid_of r = Some k) \<and>
             desiredByProduct (orderItems ?s) (originalSubmittedItems ?s) k = Some d \<longrightarrow>
             d = sum_list (map qty0
                   (filter (\<lambda>r. pid_of r = Some k \<and> item_status r \<noteq> Some ''canceled'') ?rows))"
    unfolding st demo_desired using act by (auto split: if_splits)
  have h3: "\<forall>i \<in> set (orderItems ?s). itemStatus i = Some Addon \<longrightarrow> quantity i \<le> 0"
    unfolding st by (simp add: demoOriginal_def)
  from updateKOT_status_rule [of ?s "demoBill ''pending'' ?rows" ?rows] h1 h2 h3
  have A: "upd_edited (updateData ?s (demoBill ''pending'' ?rows) ?rows) = []
      \<and> upd_added (updateData ?s (demoBill ''pending'' ?rows) ?rows) = []
      \<and> upd_status (updateData ?s (demoBill ''pending'' ?rows) ?rows) = Some ''bill-printed''"
    by blast
  \<comment> \<open>an original line lowered from 5 to 2\<close>
  let ?e = "(demoScreen [demoOriginal 5])\<lparr>orderItems := [demoOriginal 2]\<rparr>"
  have ste: "orderItems ?e = [demoOriginal 2]" "originalSubmittedItems ?e = [demoOriginal 5]"
    by (simp_all add: demoScreen_def demoOriginal_def)
  have actrows: "filter (\<lambda>r. pid_of r = Some ''P'' \<and> item_status r \<noteq> Some ''canceled'') ?rows =
      [demoRow ''i1'' 2 ''active'', demoRow ''i2'' 3 ''active'']"
    by (simp add: demoRow_def pid_of_def)
  have pl: "plannedEdits 2 [demoRow ''i1'' 2 ''active'', demoRow ''i2'' 3 ''active''] = [(Some ''i2'', 0)]"
    by (simp add: plannedEdits_def demoRow_def qty0_def Let_def)
  have ex: "\<exists>entry \<in> set (itemsByProduct ?rows). \<exists>d.
           desiredByProduct (orderItems ?e) (originalSubmittedItems ?e) (fst entry) = Some d \<and>
           plannedEdits d
             (filter (\<lambda>r. pid_of r = Some (fst entry) \<and> item_status r \<noteq> Some ''canceled'') ?rows) \<noteq> []"
    unfolding ste demo_desired demo_groups by (simp add: actrows pl del: filter.simps)
  have bs: "bill_status (demoBill ''pending'' ?rows) = Some ''pending''"
    "bill_status (demoBill ''ready'' ?rows) = Some ''ready''"
    by (simp_all add: demoBill_def)
  from updateKOT_status_rule [of ?e "demoBill ''pending'' ?rows" ?rows] ex
  have B: "upd_edited (updateData ?e (demoBill ''pending'' ?rows) ?rows) \<noteq> []
      \<and> upd_status (updateData ?e (demoBill ''pending'' ?rows) ?rows) = Some ''pending''"
    unfolding bs by blast
  \<comment> \<open>an addon line\<close>
  let ?a = "(demoScreen [demoOriginal 5])\<lparr>orderItems := [demoOriginal 5, newAddonEntry demoProduct]\<rparr>"
  have sta: "orderItems ?a = [demoOriginal 5, newAddonEntry demoProduct]"
    by (simp add: demoScreen_def)
  have added: "map (\<lambda>item. \<lparr>add_productId = pid item, add_name = product_name (product item),
                      add_quantity = quantity item, add_price = unitPrice item\<rparr>)
          (filter (\<lambda>item. itemStatus item = Some Addon \<and> 0 < quantity item) (orderItems ?a))
      = [\<lparr>add_productId = ''P'', add_name = ''Tea'', add_quantity = 1, add_price = 50\<rparr>]"
    unfolding sta
    by (simp add: demoOriginal_def newAddonEntry_def demoProduct_def unitPrice_def)
  note tha = updateKOT_status_rule [of ?a "demoBill ''ready'' ?rows" ?rows]
  have C1: "upd_added (updateData ?a (demoBill ''ready'' ?rows) ?rows)
        = [\<lparr>add_productId = ''P'', add_name = ''Tea'', add_quantity = 1, add_price = 50\<rparr>]"
    using tha [THEN conjunct2, THEN conjunct2, THEN conjunct2, THEN conjunct1]
    unfolding added .
  then have "upd_edited (updateData ?a (demoBill ''ready'' ?rows) ?rows) \<noteq> []
      \<or> upd_added (updateData ?a (demoBill ''ready'' ?rows) ?rows) \<noteq> []"
    by simp
  with tha [THEN conjunct2, THEN conjunct1]
  have "upd_status (updateData ?a (demoBill ''ready'' ?rows) ?rows) = Some ''ready''"
    unfolding bs by (rule mp)
  with C1 have C: "upd_added (updateData ?a (demoBill ''ready'' ?rows) ?rows)
        = [\<lparr>add_productId = ''P'', add_name = ''Tea'', add_quantity = 1, add_price = 50\<rparr>]
      \<and> upd_status (updateData ?a (demoBill ''ready'' ?rows) ?rows) = Some ''ready''"
    by (rule conjI)
  from A B C show ?thesis by blast
qed

text \<open>Where a desired quantity comes from.\<close>

lemma desiredByProduct_cases:
  assumes "desiredByProduct items submitted k = Some d"
  shows "(\<exists>l \<in> set items. pid l = k \<and> (itemStatus l = Some Original \<or> itemStatus l = None) \<and>
            d = quantity l)
       \<or> ((\<forall>l \<in> set items. pid l = k \<longrightarrow> \<not> (itemStatus l = Some Original \<or> itemStatus l = None)) \<and>
          (\<exists>rm \<in> set items. pid rm = k \<and> itemStatus rm = Some Removed \<and>
             d = max 0 ((case List.find (\<lambda>sub. pid sub = k) submitted of
                           Some sub \<Rightarrow> quantity sub | None \<Rightarrow> 0) - quantity rm)))"
proof -
  let ?Orig = "\<lambda>l. itemStatus l = Some Original \<or> itemStatus l = None"
  let ?good = "\<lambda>d. (\<exists>l \<in> set items. pid l = k \<and> ?Orig l \<and> d = quantity l)
       \<or> ((\<forall>l \<in> set items. pid l = k \<longrightarrow> \<not> ?Orig l) \<and>
          (\<exists>rm \<in> set items. pid rm = k \<and> itemStatus rm = Some Removed \<and>
             d = max 0 ((case List.find (\<lambda>sub. pid sub = k) submitted of
                           Some sub \<Rightarrow> quantity sub | None \<Rightarrow> 0) - quantity rm)))"
  let ?step = "\<lambda>m oi.
        if itemStatus oi = Some Original \<or> itemStatus oi = None then m(pid oi \<mapsto> quantity oi)
        else if itemStatus oi = Some Removed then
          (case List.find (\<lambda>i. pid i = pid oi \<and> (itemStatus i = Some Original \<or> itemStatus i = None)) items of
             Some orig \<Rightarrow> m(pid oi \<mapsto> quantity orig)
           | None \<Rightarrow>
               (let remaining =
                      max 0 ((case List.find (\<lambda>sub. pid sub = pid oi) submitted of
                                Some sub \<Rightarrow> quantity sub | None \<Rightarrow> 0) - quantity oi)
                in m(pid oi \<mapsto> remaining)))
        else m"
  have step: "?good d'" if m: "\<forall>d. m k = Some d \<longrightarrow> ?good d" and oi: "oi \<in> set items"
    and r: "?step m oi k = Some d'" for m oi d'
  proof (cases "pid oi = k")
    case False
    with r have "m k = Some d'"
      by (auto simp: Let_def split: if_splits option.splits)
    with m show ?thesis by blast
  next
    case True
    show ?thesis
    proof (cases "?Orig oi")
      case orig: True
      with r True have "d' = quantity oi" by auto
      with orig True oi show ?thesis by blast
    next
      case notorig: False
      show ?thesis
      proof (cases "itemStatus oi = Some Removed")
        case False
        with notorig r have "m k = Some d'" by (auto split: if_splits)
        with m show ?thesis by blast
      next
        case rem: True
        show ?thesis
        proof (cases "List.find (\<lambda>i. pid i = pid oi \<and> ?Orig i) items")
          case None
          then have no: "\<forall>l \<in> set items. pid l = k \<longrightarrow> \<not> ?Orig l"
            using True by (auto simp: find_None_iff_all)
          from None notorig rem r True
          have "d' = max 0 ((case List.find (\<lambda>sub. pid sub = k) submitted of
                           Some sub \<Rightarrow> quantity sub | None \<Rightarrow> 0) - quantity oi)"
            by (simp add: Let_def)
          with no oi True rem show ?thesis by blast
        next
          case (Some orig)
          from find_Some_holds [OF Some] True
          have "orig \<in> set items" "pid orig = k" "?Orig orig" by simp_all
          moreover from Some notorig rem r True have "d' = quantity orig" by simp
          ultimately show ?thesis by blast
        qed
      qed
    qed
  qed
  have fold: "\<forall>d. foldl ?step m xs k = Some d \<longrightarrow> ?good d"
    if "\<forall>d. m k = Some d \<longrightarrow> ?good d" "set xs \<subseteq> set items" for m xs
    using that
  proof (induction xs arbitrary: m)
    case Nil
    then show ?case by simp
  next
    case (Cons x xs)
    have "\<forall>d. ?step m x k = Some d \<longrightarrow> ?good d"
    proof (intro allI impI)
      fix d'
      assume r: "?step m x k = Some d'"
      from Cons.prems(2) have "x \<in> set items" by simp
      from step [of m x d', OF Cons.prems(1) this r] show "?good d'" .
    qed
    moreover from Cons.prems(2) have "set xs \<subseteq> set items" by simp
    ultimately have "\<forall>d. foldl ?step (?step m x) xs k = Some d \<longrightarrow> ?good d"
      by (rule Cons.IH)
    then show ?case by simp
  qed
  have "\<forall>d. foldl ?step Map.empty items k = Some d \<longrightarrow> ?good d"
    by (rule fold) simp_all
  with assms show ?thesis
    unfolding desiredByProduct_def by blast
qed

lemma sum_noncanceled:
  assumes "\<forall>r \<in> set rows. item_status r \<noteq> Some ''canceled'' \<longrightarrow> 0 \<le> qty0 r"
  shows "sum_list (map qty0 (filter (\<lambda>r. P r \<and> isActiveRow r) rows)) =
         sum_list (map qty0 (filter (\<lambda>r. P r \<and> item_status r \<noteq> Some ''canceled'') rows))"
  using assms by (induction rows) (auto simp: isActiveRow_def)

text \<open>
  The hypotheses of the last part hold right after a sync: a draft built by
  \<open>fetchLastOrder\<close> from a bill whose rows have quantities of at least 0, sent back
  unchanged against the same bill, gives no edited and no added item.
\<close>

lemma synced_desired:
  assumes guard: "truthy (apiUrl s)" "tableNumber s = Some t" "t \<noteq> 0" "\<not> isLoadingIp s"
    and body: "resp_status body = Some ''success''" "resp_data body = Some bill"
    and rows: "rows = (case bill_items bill of None \<Rightarrow> [] | Some rs \<Rightarrow> rs)"
    and nonneg: "\<forall>r \<in> set rows. item_status r \<noteq> Some ''canceled'' \<longrightarrow> 0 \<le> qty0 r"
    and s': "s' = fetchLastOrder suppress (Resolved code body) s"
    and d: "desiredByProduct (orderItems s') (originalSubmittedItems s') k = Some d"
  shows "d = sum_list (map qty0
               (filter (\<lambda>r. pid_of r = Some k \<and> item_status r \<noteq> Some ''canceled'') rows))"
proof -
  let ?items = "orderItems s'"
  let ?g = "filter (\<lambda>r. pid_of r = Some k) rows"
  let ?act = "filter (\<lambda>r. pid_of r = Some k \<and> isActiveRow r) rows"
  have act: "filter isActiveRow ?g = ?act" by simp
  have items: "?items = (if suppress then filter (\<lambda>i. itemStatus i \<noteq> Some Removed) (mappedItems bill)
                         else mappedItems bill)"
    unfolding s' by (rule fetchLastOrder_success [OF guard body])
  have sub: "originalSubmittedItems s' = filter (\<lambda>i. itemStatus i = Some Original) ?items"
    unfolding s' using guard body by (simp add: fetchLastOrder_def Let_def)
  have status: "itemStatus l = Some Original \<or> itemStatus l = Some Removed" if "l \<in> set ?items" for l
    using that unfolding items by (auto dest: mappedItems_status split: if_splits)
  have grp: "filter (\<lambda>l. pid l = k) (mappedItems bill) = (if ?g = [] then [] else mapGroup (k, ?g))"
    using rows by (simp add: mappedItems_of_product)
  have origs: "filter (\<lambda>l. pid l = k \<and> itemStatus l = Some Original) ?items =
      filter (\<lambda>l. itemStatus l = Some Original) (if ?g = [] then [] else mapGroup (k, ?g))"
    unfolding s' synced_original_lines [OF guard body] grp ..
  have origs_active: "filter (\<lambda>l. pid l = k \<and> itemStatus l = Some Original) ?items =
      [\<lparr>product = protoProduct k (hd ?act), quantity = sum_list (map qty0 ?act),
        itemStatus = Some Original, originalQuantity = Some (sum_list (map qty0 ?act)),
        localId = Some (''srv-'' @ k), serverItemIds = Some (rowIds ?act)\<rparr>]"
    if "?act \<noteq> []"
  proof -
    from that have "?g \<noteq> []" by (auto simp: filter_empty_conv)
    with that mapGroup_original [of ?g k] show ?thesis
      unfolding origs act by simp
  qed
  have origs_none: "filter (\<lambda>l. pid l = k \<and> itemStatus l = Some Original) ?items = []"
    if "?act = []"
    unfolding origs using that mapGroup_no_original [of ?g k] act by simp
  from desiredByProduct_cases [OF d]
  consider (orig) l where "l \<in> set ?items" "pid l = k"
        "itemStatus l = Some Original \<or> itemStatus l = None" "d = quantity l"
    | (rem) rm where
        "\<forall>l \<in> set ?items. pid l = k \<longrightarrow> \<not> (itemStatus l = Some Original \<or> itemStatus l = None)"
        "rm \<in> set ?items" "pid rm = k" "itemStatus rm = Some Removed"
        "d = max 0 ((case List.find (\<lambda>sub. pid sub = k) (originalSubmittedItems s') of
                           Some sub \<Rightarrow> quantity sub | None \<Rightarrow> 0) - quantity rm)"
    by blast
  then show ?thesis
  proof cases
    case orig
    note l = orig
    with status [OF l(1)] have "itemStatus l = Some Original" by auto
    with l have mem: "l \<in> set (filter (\<lambda>l. pid l = k \<and> itemStatus l = Some Original) ?items)"
      by simp
    then have ne: "?act \<noteq> []"
      using origs_none by fastforce
    from mem have "quantity l = sum_list (map qty0 ?act)"
      unfolding origs_active [OF ne] by simp
    with l(4) show ?thesis
      using sum_noncanceled [OF nonneg, of "\<lambda>r. pid_of r = Some k"] by simp
  next
    case rem
    note no = rem(1) and rm = rem(2,3,4) and dq = rem(5)
    have "List.find (\<lambda>sub. pid sub = k) (originalSubmittedItems s') = None"
      unfolding sub using no by (auto simp: find_None_iff_all)
    moreover have "quantity rm = 0"
      using synced_removed_line [OF guard body rows] rm(1,3) unfolding s' by blast
    ultimately have d0: "d = 0" using dq by simp
    have "?act = []"
    proof (rule ccontr)
      assume ne: "?act \<noteq> []"
      let ?line = "\<lparr>product = protoProduct k (hd ?act), quantity = sum_list (map qty0 ?act),
        itemStatus = Some Original, originalQuantity = Some (sum_list (map qty0 ?act)),
        localId = Some (''srv-'' @ k), serverItemIds = Some (rowIds ?act)\<rparr>"
      have "?line \<in> set (filter (\<lambda>l. pid l = k \<and> itemStatus l = Some Original) ?items)"
        unfolding origs_active [OF ne] by simp
      then have "?line \<in> set ?items" "pid ?line = k" "itemStatus ?line = Some Original"
        by simp_all
      with no show False by blast
    qed
    then have "sum_list (map qty0 ?act) = 0" by simp
    with d0 show ?thesis
      using sum_noncanceled [OF nonneg, of "\<lambda>r. pid_of r = Some k"] by simp
  qed
qed

lemma sync_then_update_no_change:
  assumes guard: "truthy (apiUrl s)" "tableNumber s = Some t" "t \<noteq> 0" "\<not> isLoadingIp s"
    and body: "resp_status body = Some ''success''" "resp_data body = Some bill"
    and rows: "rows = (case bill_items bill of None \<Rightarrow> [] | Some rs \<Rightarrow> rs)"
    and nonneg: "\<forall>r \<in> set rows. item_status r \<noteq> Some ''canceled'' \<longrightarrow> 0 \<le> qty0 r"
  shows "upd_edited (updateData (fetchLastOrder suppress (Resolved code body) s) bill rows) = []
       \<and> upd_added (updateData (fetchLastOrder suppress (Resolved code body) s) bill rows) = []"
proof -
  let ?s' = "fetchLastOrder suppress (Resolved code body) s"
  have "editedItems (desiredByProduct (orderItems ?s') (originalSubmittedItems ?s'))
          (itemsByProduct rows) = []"
    using synced_desired [OF guard body rows nonneg refl]
    by (intro editedItems_matching [OF nonneg]) blast
  moreover have "addedItems (orderItems ?s') = []"
    unfolding fetchLastOrder_success [OF guard body] addedItems_def
    by (auto simp: filter_empty_conv dest: mappedItems_status split: if_splits)
  ultimately show ?thesis
    by (simp add: updateData_def Let_def)
qed

end
